theory Spec2Isabelle
  imports Main "HOL-Library.Word" "HOL-Library.AList" "HOL-Library.Multiset"
begin

section \<open>JavaScript strings\<close>

text \<open>
  A JavaScript string is a sequence of 16-bit code units. \<open>js\<close> embeds an ASCII literal
  of the source; a character beyond ASCII is written as its code unit
  (\<open>0xE3\<close> is the a-tilde of the answer value of the second sim_nao option).
\<close>

type_synonym jschar = "16 word"
type_synonym jsstring = "jschar list"

definition js :: "string \<Rightarrow> jsstring" where
  "js s = map (\<lambda>c. word_of_nat (of_char c)) s"

definition Sim :: jsstring where
  "Sim = js ''Sim''"

definition Nao :: jsstring where
  "Nao = js ''N'' @ [0xE3] @ js ''o''"

definition Observacoes :: jsstring where
  "Observacoes = js ''Observa'' @ [0xE7, 0xF5] @ js ''es''"

text \<open>Digits, and the two halves of a surrogate pair.\<close>

definition is_digit :: "jschar \<Rightarrow> bool" where
  "is_digit c = (0x30 \<le> c \<and> c \<le> 0x39)"

definition is_lead :: "jschar \<Rightarrow> bool" where
  "is_lead c = (0xD800 \<le> c \<and> c \<le> 0xDBFF)"

definition is_trail :: "jschar \<Rightarrow> bool" where
  "is_trail c = (0xDC00 \<le> c \<and> c \<le> 0xDFFF)"

section \<open>The answer model (renderer.js, line 20)\<close>

text \<open>
  \<open>export const model = {}\<close> is an ordinary object used as a dictionary. Its own
  properties are kept as an association list in creation order: an assignment to an
  existing key overwrites the value in place, an assignment to a new key appends it.

  The object inherits from \<open>Object.prototype\<close>, whose only accessor property is
  \<open>__proto__\<close>. The assignment \<open>model[k] = v\<close> with \<open>k = "__proto__"\<close> therefore
  calls the inherited setter, which ignores every value that is neither an object nor
  null: with a string \<open>v\<close> no own property is created and the object is unchanged. All
  other inherited properties are writable data properties, so an assignment creates
  an own property of the model.
\<close>

type_synonym answer_model = "(jsstring \<times> jsstring) list"

definition model :: answer_model where
  "model = []"

definition model_get :: "answer_model \<Rightarrow> jsstring \<Rightarrow> jsstring option" where
  "model_get m k = map_of m k"

definition model_keys :: "answer_model \<Rightarrow> jsstring set" where
  "model_keys m = fst ` set m"

definition model_set :: "jsstring \<Rightarrow> jsstring \<Rightarrow> answer_model \<Rightarrow> answer_model" where
  "model_set k v m = (if k = js ''__proto__'' then m else AList.update k v m)"

section \<open>Field descriptors and the document tree\<close>

text \<open>An entry of perguntas.json; \<open>options\<close> is optional, an absent flag is false.\<close>

record descriptor =
  item_type :: jsstring
  item_id :: jsstring
  item_text :: jsstring
  options :: "jsstring list option"
  has_observation :: bool

text \<open>
  Elements carry their tag, their attributes and their children. The white space
  between the tags of a template is left out of the tree.
\<close>

datatype node = Elem jsstring "(jsstring \<times> jsstring) list" "node list" | Txt jsstring

type_synonym path = "nat list"

fun descendants :: "node \<Rightarrow> (path \<times> node) list"
  and descendants_from :: "nat \<Rightarrow> node list \<Rightarrow> (path \<times> node) list" where
  "descendants (Elem t a cs) = descendants_from 0 cs"
| "descendants (Txt s) = []"
| "descendants_from i [] = []"
| "descendants_from i (c # cs) =
     ([i], c) # map (\<lambda>(p, n). (i # p, n)) (descendants c) @ descendants_from (Suc i) cs"

fun node_at :: "node \<Rightarrow> path \<Rightarrow> node option" where
  "node_at n [] = Some n"
| "node_at (Txt s) (i # p) = None"
| "node_at (Elem t a cs) (i # p) = (if i < length cs then node_at (cs ! i) p else None)"

fun attr :: "jsstring \<Rightarrow> node \<Rightarrow> jsstring option" where
  "attr k (Elem t a cs) = map_of a k"
| "attr k (Txt s) = None"

fun textContent :: "node \<Rightarrow> jsstring" and textContent_all :: "node list \<Rightarrow> jsstring" where
  "textContent (Txt s) = s"
| "textContent (Elem t a cs) = textContent_all cs"
| "textContent_all [] = []"
| "textContent_all (c # cs) = textContent c @ textContent_all cs"

section \<open>Errors\<close>

text \<open>
  \<open>InvalidSelector\<close> is the DOMException (of name SyntaxError) that \<open>querySelector\<close>
  and \<open>querySelectorAll\<close> throw on a selector text that is not a selector.

  \<open>Unmodelled\<close> is not an exception of the source. The source hands strings built from
  the descriptors to the HTML parser (\<open>innerHTML\<close>) and to the selector parser of the
  browser; the definitions below follow those parsers on the strings described with
  them, and answer \<open>Unmodelled\<close> on every other string: there this theory does not say
  what the source does, and ends the computation.
\<close>

datatype error =
  TypeError | LoadError nat | NetworkError | SyntaxError | InvalidSelector | Unmodelled

definition and_then :: "error + 'a \<Rightarrow> ('a \<Rightarrow> error + 'b) \<Rightarrow> error + 'b" where
  "and_then r f = (case r of Inl e \<Rightarrow> Inl e | Inr x \<Rightarrow> f x)"

fun collect :: "(error + 'a) list \<Rightarrow> error + 'a list" where
  "collect [] = Inr []"
| "collect (r # rs) =
     (case r of
        Inl e \<Rightarrow> Inl e
      | Inr x \<Rightarrow> (case collect rs of Inl e \<Rightarrow> Inl e | Inr xs \<Rightarrow> Inr (x # xs)))"

section \<open>The HTML parser on the interpolated strings\<close>

text \<open>
  A string interpolated as the content of an element. The parser copies a code unit
  into a text node unless it is \<open><\<close> (a tag opens), \<open>&\<close> (a character reference),
  NUL (dropped), a carriage return (turned into a line feed) or a surrogate (left out
  here); adjacent characters form one text node, and the empty string gives no node.
  Of the markup, the start tag \<open><input>\<close> is followed: it inserts an input element
  without attributes, which has no content and no end tag.
\<close>

definition text_char :: "jschar \<Rightarrow> bool" where
  "text_char c = (c \<noteq> 0x3C \<and> c \<noteq> 0x26 \<and> c \<noteq> 0 \<and> c \<noteq> 0x0D \<and> \<not> is_lead c \<and> \<not> is_trail c)"

definition add_char :: "jschar \<Rightarrow> node list \<Rightarrow> node list" where
  "add_char c ns = (case ns of Txt t # rest \<Rightarrow> Txt (c # t) # rest | _ \<Rightarrow> Txt [c] # ns)"

fun parse_inner :: "jsstring \<Rightarrow> node list option" where
  "parse_inner [] = Some []"
| "parse_inner (c # cs) =
     (if c = 0x3C then
        (case cs of
           c1 # c2 # c3 # c4 # c5 # c6 # rest \<Rightarrow>
             if [c1, c2, c3, c4, c5, c6] = js ''input>''
             then map_option (\<lambda>ns. Elem (js ''input'') [] [] # ns) (parse_inner rest)
             else None
         | _ \<Rightarrow> None)
      else if text_char c then map_option (add_char c) (parse_inner cs)
      else None)"

definition inner_nodes :: "jsstring \<Rightarrow> error + node list" where
  "inner_nodes s = (case parse_inner s of None \<Rightarrow> Inl Unmodelled | Some ns \<Rightarrow> Inr ns)"

text \<open>
  A string interpolated between the double quotes of an attribute: it is the value of
  the attribute unless it holds a double quote (the value ends), \<open>&\<close>, NUL, a carriage
  return or a surrogate.
\<close>

definition attr_char :: "jschar \<Rightarrow> bool" where
  "attr_char c = (c \<noteq> 0x22 \<and> c \<noteq> 0x26 \<and> c \<noteq> 0 \<and> c \<noteq> 0x0D \<and> \<not> is_lead c \<and> \<not> is_trail c)"

definition attr_value :: "jsstring \<Rightarrow> error + jsstring" where
  "attr_value s = (if list_all attr_char s then Inr s else Inl Unmodelled)"

section \<open>The selector parser\<close>

text \<open>
  The selectors followed are a type selector of lower-case letters, such a type with one
  attribute test \<open>[name="value"]\<close>, and \<open>#\<close> with a name. After \<open>#\<close>, a name that
  starts with a letter or an underscore and goes on with letters, digits, underscores and
  hyphens is an id selector; such a name that starts with a digit is not an identifier
  and the text is not a selector. A value between double quotes is read up to the next
  double quote and is followed when it holds no backslash, line break, NUL or surrogate.
  Elements are compared with the selector as in a document in no-quirks mode.
\<close>

datatype selector = Tag jsstring | TagAttr jsstring jsstring jsstring | Id jsstring

definition lower :: "jschar \<Rightarrow> bool" where
  "lower c = (0x61 \<le> c \<and> c \<le> 0x7A)"

definition letter :: "jschar \<Rightarrow> bool" where
  "letter c = (lower c \<or> (0x41 \<le> c \<and> c \<le> 0x5A))"

definition name_char :: "jschar \<Rightarrow> bool" where
  "name_char c = (letter c \<or> is_digit c \<or> c = 0x5F \<or> c = 0x2D)"

definition css_ident :: "jsstring \<Rightarrow> bool" where
  "css_ident s = (case s of [] \<Rightarrow> False | c # cs \<Rightarrow> (letter c \<or> c = 0x5F) \<and> list_all name_char cs)"

definition string_char :: "jschar \<Rightarrow> bool" where
  "string_char c =
     (c \<noteq> 0x22 \<and> c \<noteq> 0x5C \<and> c \<noteq> 0x0A \<and> c \<noteq> 0x0C \<and> c \<noteq> 0x0D \<and> c \<noteq> 0
      \<and> \<not> is_lead c \<and> \<not> is_trail c)"

definition parse_selector :: "jsstring \<Rightarrow> error + selector" where
  "parse_selector s =
     (case s of
        [] \<Rightarrow> Inl Unmodelled
      | c # cs \<Rightarrow>
          if c = 0x23 then
            (if css_ident cs then Inr (Id cs)
             else if list_all name_char cs \<and> list_all is_digit (take 1 cs) \<and> cs \<noteq> []
             then Inl InvalidSelector
             else Inl Unmodelled)
          else
            (let tag = takeWhile lower s; rest = dropWhile lower s;
                 k = takeWhile lower (drop 1 rest); r2 = dropWhile lower (drop 1 rest);
                 v = takeWhile string_char (drop 2 r2); r3 = dropWhile string_char (drop 2 r2)
             in if tag = [] then Inl Unmodelled
                else if rest = [] then Inr (Tag tag)
                else if take 1 rest = [0x5B] \<and> k \<noteq> [] \<and> take 2 r2 = [0x3D, 0x22]
                        \<and> r3 = [0x22, 0x5D]
                then Inr (TagAttr tag k v)
                else Inl Unmodelled))"

fun matches :: "selector \<Rightarrow> node \<Rightarrow> bool" where
  "matches sel (Txt s) = False"
| "matches (Tag t) (Elem t' a cs) = (t = t')"
| "matches (TagAttr t k v) (Elem t' a cs) = (t = t' \<and> map_of a k = Some v)"
| "matches (Id i) (Elem t' a cs) = (map_of a (js ''id'') = Some i)"

definition querySelectorAll :: "jsstring \<Rightarrow> node \<Rightarrow> error + path list" where
  "querySelectorAll s n =
     and_then (parse_selector s)
       (\<lambda>sel. Inr (map fst (filter (\<lambda>(p, c). matches sel c) (descendants n))))"

definition querySelector :: "jsstring \<Rightarrow> node \<Rightarrow> error + path option" where
  "querySelector s n =
     and_then (querySelectorAll s n)
       (\<lambda>ps. Inr (case ps of [] \<Rightarrow> None | p # rest \<Rightarrow> Some p))"

section \<open>Creating elements (renderer.js, lines 41 to 48)\<close>

text \<open>\<open>el(tag, opts, inner)\<close>; an absent option is \<open>None\<close>.\<close>

record el_opts =
  cls :: "jsstring option"
  eid :: "jsstring option"
  attrs :: "(jsstring \<times> jsstring) list option"

definition no_opts :: el_opts where
  "no_opts = \<lparr>cls = None, eid = None, attrs = None\<rparr>"

definition truthy :: "jsstring option \<Rightarrow> bool" where
  "truthy s = (case s of None \<Rightarrow> False | Some v \<Rightarrow> v \<noteq> [])"

definition el :: "jsstring \<Rightarrow> el_opts \<Rightarrow> jsstring \<Rightarrow> error + node" where
  "el tag opts inner =
     (let a1 = (if truthy (cls opts) then [(js ''class'', the (cls opts))] else []);
          a2 = (if truthy (eid opts) then AList.update (js ''id'') (the (eid opts)) a1 else a1);
          a3 = (case attrs opts of None \<Rightarrow> a2
                | Some kvs \<Rightarrow> fold (\<lambda>(k, v). AList.update k v) kvs a2)
      in if inner \<noteq> [] then and_then (inner_nodes inner) (\<lambda>ns. Inr (Elem tag a3 ns))
         else Inr (Elem tag a3 []))"

definition set_innerHTML :: "node list \<Rightarrow> node \<Rightarrow> node" where
  "set_innerHTML cs n = (case n of Elem t a old \<Rightarrow> Elem t a cs | Txt s \<Rightarrow> Txt s)"

section \<open>Events and listeners\<close>

text \<open>
  Every listener the renderers register is the closure
  \<open>e => model[K] = e.target.value\<close> for a key \<open>K\<close> fixed at render time;
  \<open>StoreValue K\<close> is that closure.
\<close>

datatype handler = StoreValue jsstring

record target =
  t_id :: jsstring
  t_name :: jsstring
  t_value :: jsstring

fun run_handler :: "handler \<Rightarrow> target \<Rightarrow> answer_model \<Rightarrow> answer_model" where
  "run_handler (StoreValue k) e m = model_set k (t_value e) m"

record unit_el =
  wrap :: node
  listeners :: "(path \<times> jsstring \<times> handler) list"

definition addEventListener ::
  "path option \<Rightarrow> jsstring \<Rightarrow> handler \<Rightarrow> unit_el \<Rightarrow> error + unit_el" where
  "addEventListener p ty h u =
     (case p of None \<Rightarrow> Inl TypeError
      | Some q \<Rightarrow> Inr (u\<lparr>listeners := listeners u @ [(q, ty, h)]\<rparr>))"

definition addEventListener_each ::
  "path list \<Rightarrow> jsstring \<Rightarrow> handler \<Rightarrow> unit_el \<Rightarrow> unit_el" where
  "addEventListener_each ps ty h u = u\<lparr>listeners := listeners u @ map (\<lambda>q. (q, ty, h)) ps\<rparr>"

definition attr_or_empty :: "jsstring \<Rightarrow> node \<Rightarrow> jsstring" where
  "attr_or_empty k n = (case attr k n of None \<Rightarrow> [] | Some v \<Rightarrow> v)"

text \<open>
  Dispatching an event of type \<open>ty\<close> at the element at path \<open>p\<close> of a unit runs, in
  registration order, the listeners registered on that element for that type; \<open>v\<close> is
  the element's current value.
\<close>

definition fire :: "unit_el \<Rightarrow> path \<Rightarrow> jsstring \<Rightarrow> jsstring \<Rightarrow> answer_model \<Rightarrow> answer_model" where
  "fire u p ty v m =
     (case node_at (wrap u) p of None \<Rightarrow> m
      | Some n \<Rightarrow>
          fold (\<lambda>(q, t, h) acc.
                  if q = p \<and> t = ty
                  then run_handler h \<lparr>t_id = attr_or_empty (js ''id'') n,
                                      t_name = attr_or_empty (js ''name'') n,
                                      t_value = v\<rparr> acc
                  else acc)
               (listeners u) m)"

text \<open>Choosing a radio button dispatches \<open>change\<close> with the button's value attribute.\<close>

definition select_radio :: "unit_el \<Rightarrow> path \<Rightarrow> answer_model \<Rightarrow> answer_model" where
  "select_radio u p m =
     (case node_at (wrap u) p of None \<Rightarrow> m
      | Some n \<Rightarrow> fire u p (js ''change'') (attr_or_empty (js ''value'') n) m)"

section \<open>Field renderers (renderer.js, lines 57 to 137)\<close>

text \<open>
  Each renderer creates the wrapper, sets its \<open>innerHTML\<close> to the template filled with
  the descriptor's strings, and registers its listeners on what the selectors find.
  The white space between the tags of a template, and the space that joins the options
  of a radio field, become text nodes that no selector matches and no listener is
  registered on; they are left out of the tree, so that a path counts the children that
  come from a tag or from an interpolated string.
\<close>

definition campo :: "error + node" where
  "campo = el (js ''div'') (no_opts\<lparr>cls := Some (js ''campo'')\<rparr>) []"

definition label_for :: "descriptor \<Rightarrow> error + node" where
  "label_for item =
     and_then (attr_value (item_id item)) (\<lambda>i.
     and_then (inner_nodes (item_text item)) (\<lambda>ns.
       Inr (Elem (js ''label'') [(js ''for'', i)] ns)))"

definition input_of :: "jsstring \<Rightarrow> descriptor \<Rightarrow> error + node" where
  "input_of ty item =
     and_then (attr_value (item_id item)) (\<lambda>i.
       Inr (Elem (js ''input'') [(js ''type'', ty), (js ''id'', i), (js ''name'', i)] []))"

definition bind_input :: "jsstring \<Rightarrow> descriptor \<Rightarrow> node \<Rightarrow> error + unit_el" where
  "bind_input sel item w =
     and_then (querySelector sel w) (\<lambda>p.
       addEventListener p (js ''input'') (StoreValue (item_id item)) \<lparr>wrap = w, listeners = []\<rparr>)"

definition renderText :: "descriptor \<Rightarrow> error + unit_el" where
  "renderText item =
     and_then campo (\<lambda>wrap0.
     and_then (label_for item) (\<lambda>l.
     and_then (input_of (js ''text'') item) (\<lambda>i.
       bind_input (js ''input'') item (set_innerHTML [l, i] wrap0))))"

definition renderNumber :: "descriptor \<Rightarrow> error + unit_el" where
  "renderNumber item =
     and_then campo (\<lambda>wrap0.
     and_then (label_for item) (\<lambda>l.
     and_then (input_of (js ''number'') item) (\<lambda>i.
       bind_input (js ''input'') item (set_innerHTML [l, i] wrap0))))"

definition renderDate :: "descriptor \<Rightarrow> error + unit_el" where
  "renderDate item =
     and_then campo (\<lambda>wrap0.
     and_then (label_for item) (\<lambda>l.
     and_then (input_of (js ''date'') item) (\<lambda>i.
       bind_input (js ''input'') item (set_innerHTML [l, i] wrap0))))"

definition textarea_of :: "descriptor \<Rightarrow> error + node" where
  "textarea_of item =
     and_then (attr_value (item_id item)) (\<lambda>i.
       Inr (Elem (js ''textarea'') [(js ''id'', i), (js ''name'', i), (js ''rows'', js ''3'')] []))"

definition renderTextarea :: "descriptor \<Rightarrow> error + unit_el" where
  "renderTextarea item =
     and_then campo (\<lambda>wrap0.
     and_then (label_for item) (\<lambda>l.
     and_then (textarea_of item) (\<lambda>t.
       bind_input (js ''textarea'') item (set_innerHTML [l, t] wrap0))))"

text \<open>
  \<open><label><input type="radio" name="N" value="V"> V</label>\<close>, and the selector text
  \<open>input[name="N"]\<close>.
\<close>

definition radio_option :: "jsstring \<Rightarrow> jsstring \<Rightarrow> error + node" where
  "radio_option name v =
     and_then (attr_value name) (\<lambda>n.
     and_then (attr_value v) (\<lambda>val.
     and_then (inner_nodes (js '' '' @ v)) (\<lambda>ns.
       Inr (Elem (js ''label'') []
              (Elem (js ''input'') [(js ''type'', js ''radio''), (js ''name'', n),
                                    (js ''value'', val)] []
               # ns)))))"

definition by_name :: "jsstring \<Rightarrow> jsstring" where
  "by_name name = js ''input[name='' @ [0x22] @ name @ [0x22] @ js '']''"

definition observation_of :: "descriptor \<Rightarrow> error + node list" where
  "observation_of item =
     (if has_observation item
      then and_then (attr_value (item_id item @ js ''_obs'')) (\<lambda>i.
             Inr [Elem (js ''textarea'') [(js ''id'', i), (js ''placeholder'', Observacoes)] []])
      else Inr [])"

definition renderSimNao :: "descriptor \<Rightarrow> error + unit_el" where
  "renderSimNao item =
     and_then (el (js ''div'') (no_opts\<lparr>cls := Some (js ''Ask'')\<rparr>) []) (\<lambda>wrap0.
     and_then (inner_nodes (item_text item)) (\<lambda>ns.
     and_then (radio_option (item_id item) Sim) (\<lambda>sim.
     and_then (radio_option (item_id item) Nao) (\<lambda>nao.
     and_then (observation_of item) (\<lambda>obs.
       (let w = set_innerHTML
                  ([Elem (js ''label'') [(js ''class'', js ''ask-label'')] ns,
                    Elem (js ''div'') [(js ''class'', js ''radio-group'')] [sim, nao]] @ obs)
                  wrap0
        in and_then (querySelectorAll (by_name (item_id item)) w) (\<lambda>radios.
             (let u = addEventListener_each radios (js ''change'') (StoreValue (item_id item))
                        \<lparr>wrap = w, listeners = []\<rparr>
              in if has_observation item
                 then and_then (querySelector (js ''#'' @ item_id item @ js ''_obs'') w) (\<lambda>p.
                        addEventListener p (js ''input'')
                          (StoreValue (item_id item @ js ''_obs'')) u)
                 else Inr u))))))))"

definition renderRadio :: "descriptor \<Rightarrow> error + unit_el" where
  "renderRadio item =
     and_then campo (\<lambda>wrap0.
       (case options item of
          None \<Rightarrow> Inl TypeError
        | Some os \<Rightarrow>
            and_then (collect (map (radio_option (item_id item)) os)) (\<lambda>opts.
            and_then (inner_nodes (item_text item)) (\<lambda>ns.
              (let w = set_innerHTML
                         [Elem (js ''label'') [] ns, Elem (js ''div'') [] opts] wrap0
               in and_then (querySelectorAll (by_name (item_id item)) w) (\<lambda>radios.
                    Inr (addEventListener_each radios (js ''change'')
                           (StoreValue (item_id item)) \<lparr>wrap = w, listeners = []\<rparr>)))))))"

section \<open>Sections and the page (renderer.js, lines 11 to 14 and 143 to 156)\<close>

datatype log_entry = Console_error jsstring | Console_warn jsstring jsstring | Console_log jsstring

text \<open>
  A section is the pair of elements \<open>createSection\<close> appends to the container: the
  title and the content, whose children are the rendered units. The two flags are the
  classes \<open>active\<close> and \<open>open\<close> the click listener of the title toggles.
\<close>

record form_section =
  sec_title :: node
  sec_content :: node
  title_active :: bool
  content_open :: bool
  sec_units :: "unit_el list"

text \<open>\<open>root\<close> is \<open>None\<close> when the document has no element with id \<open>formulario\<close>.\<close>

record page =
  root :: "form_section list option"
  console :: "log_entry list"

definition load_page :: "bool \<Rightarrow> page" where
  "load_page has_container =
     (if has_container then \<lparr>root = Some [], console = []\<rparr>
      else \<lparr>root = None,
            console = [Console_error (js ''ERRO: container #formulario n'' @ [0xE3]
                                      @ js ''o encontrado.'')]\<rparr>)"

definition new_section :: "jsstring \<Rightarrow> error + form_section" where
  "new_section titleText =
     and_then (el (js ''div'') (no_opts\<lparr>cls := Some (js ''section-title'')\<rparr>) titleText) (\<lambda>title.
     and_then (el (js ''div'') (no_opts\<lparr>cls := Some (js ''section-content'')\<rparr>) []) (\<lambda>content.
       Inr \<lparr>sec_title = title, sec_content = content, title_active = False,
            content_open = False, sec_units = []\<rparr>))"

text \<open>
  The result is the reference to the new content element: its index in the page.
  Without the container the call fails at \<open>root.appendChild\<close>, however the title reads.
\<close>

definition createSection :: "jsstring \<Rightarrow> page \<Rightarrow> error + (nat \<times> page)" where
  "createSection titleText pg =
     (case root pg of
        None \<Rightarrow> Inl TypeError
      | Some secs \<Rightarrow>
          and_then (new_section titleText) (\<lambda>sec.
            Inr (length secs, pg\<lparr>root := Some (secs @ [sec])\<rparr>)))"

definition title_click :: "nat \<Rightarrow> page \<Rightarrow> page" where
  "title_click i pg =
     (case root pg of
        None \<Rightarrow> pg
      | Some secs \<Rightarrow>
          if i < length secs
          then pg\<lparr>root := Some (secs[i := (secs ! i)\<lparr>content_open := \<not> content_open (secs ! i),
                                                       title_active := \<not> title_active (secs ! i)\<rparr>])\<rparr>
          else pg)"

text \<open>The label a section shows is the text of its title.\<close>

definition section_label :: "form_section \<Rightarrow> jsstring" where
  "section_label s = textContent (sec_title s)"

definition appendChild :: "nat \<Rightarrow> unit_el \<Rightarrow> page \<Rightarrow> page" where
  "appendChild i u pg =
     (case root pg of
        None \<Rightarrow> pg
      | Some secs \<Rightarrow>
          if i < length secs
          then pg\<lparr>root := Some (secs[i := (secs ! i)\<lparr>sec_units := sec_units (secs ! i) @ [u]\<rparr>])\<rparr>
          else pg)"

section \<open>Dispatch and assembly (renderer.js, lines 162 to 198)\<close>

definition append_rendered :: "error + unit_el \<Rightarrow> nat \<Rightarrow> page \<Rightarrow> error option \<times> page" where
  "append_rendered r sec pg =
     (case r of Inl e \<Rightarrow> (Some e, pg) | Inr u \<Rightarrow> (None, appendChild sec u pg))"

definition renderItem :: "descriptor \<Rightarrow> nat \<Rightarrow> page \<Rightarrow> error option \<times> page" where
  "renderItem item sec pg =
     (if item_type item = js ''text'' then append_rendered (renderText item) sec pg
      else if item_type item = js ''number'' then append_rendered (renderNumber item) sec pg
      else if item_type item = js ''date'' then append_rendered (renderDate item) sec pg
      else if item_type item = js ''textarea'' then append_rendered (renderTextarea item) sec pg
      else if item_type item = js ''sim_nao'' then append_rendered (renderSimNao item) sec pg
      else if item_type item = js ''radio'' then append_rendered (renderRadio item) sec pg
      else (None, pg\<lparr>console := console pg
                        @ [Console_warn (js ''Tipo desconhecido:'') (item_type item)]\<rparr>))"

text \<open>The outcome of fetching and parsing perguntas.json.\<close>

datatype fetch_outcome =
    Fetch_rejected
  | Response_not_ok nat
  | Body_malformed
  | Body "descriptor list"

definition carregarPerguntas :: "fetch_outcome \<Rightarrow> error + descriptor list" where
  "carregarPerguntas f =
     (case f of
        Fetch_rejected \<Rightarrow> Inl NetworkError
      | Response_not_ok status \<Rightarrow> Inl (LoadError status)
      | Body_malformed \<Rightarrow> Inl SyntaxError
      | Body ds \<Rightarrow> Inr ds)"

definition Geral :: jsstring where
  "Geral = js ''Geral''"

text \<open>
  The callback of \<open>perguntas.forEach\<close>, lines 186 to 197, on the local variable
  \<open>secAtual\<close> and the page. An exception leaves the callback with the page as it is
  at that moment.
\<close>

definition each_item ::
  "descriptor \<Rightarrow> nat option \<Rightarrow> page \<Rightarrow> error option \<times> nat option \<times> page" where
  "each_item item secAtual pg =
     (if item_type item = js ''group''
      then (case createSection (item_text item) pg of
              Inl e \<Rightarrow> (Some e, secAtual, pg)
            | Inr (s, pg') \<Rightarrow> (None, Some s, pg'))
      else (case (case secAtual of
                    None \<Rightarrow> createSection Geral pg
                  | Some s \<Rightarrow> Inr (s, pg)) of
              Inl e \<Rightarrow> (Some e, secAtual, pg)
            | Inr (s, pg') \<Rightarrow>
                (case renderItem item s pg' of (e, pg'') \<Rightarrow> (e, Some s, pg''))))"

fun forEach :: "descriptor list \<Rightarrow> nat option \<Rightarrow> page \<Rightarrow> error option \<times> page" where
  "forEach [] secAtual pg = (None, pg)"
| "forEach (item # rest) secAtual pg =
     (case each_item item secAtual pg of
        (Some e, secAtual', pg') \<Rightarrow> (Some e, pg')
      | (None, secAtual', pg') \<Rightarrow> forEach rest secAtual' pg')"

definition renderFormulario :: "fetch_outcome \<Rightarrow> page \<Rightarrow> error option \<times> page" where
  "renderFormulario f pg =
     (case carregarPerguntas f of
        Inl e \<Rightarrow> (Some e, pg)
      | Inr perguntas \<Rightarrow> forEach perguntas None pg)"

section \<open>The listeners of script.js (lines 71 to 105)\<close>

definition Model_atualizado :: "jsstring \<Rightarrow> jsstring \<Rightarrow> log_entry" where
  "Model_atualizado k v = Console_log (js ''Model atualizado: '' @ k @ js '' = '' @ v)"

definition input_listener ::
  "target \<Rightarrow> answer_model \<times> log_entry list \<Rightarrow> answer_model \<times> log_entry list" where
  "input_listener e st =
     (case st of (m, out) \<Rightarrow>
        (model_set (t_id e) (t_value e) m, out @ [Model_atualizado (t_id e) (t_value e)]))"

definition radio_listener ::
  "target \<Rightarrow> answer_model \<times> log_entry list \<Rightarrow> answer_model \<times> log_entry list" where
  "radio_listener e st =
     (case st of (m, out) \<Rightarrow>
        (let name = t_name e
         in (model_set name (t_value e) m, out @ [Model_atualizado name (t_value e)])))"

text \<open>The element after a slider: its class list and its text.\<close>

record display_el =
  classList :: "jsstring list"
  textContent :: jsstring

definition range_listener ::
  "target \<Rightarrow> display_el option \<Rightarrow> answer_model \<Rightarrow> answer_model \<times> display_el option" where
  "range_listener e nextElementSibling m =
     (model_set (t_id e) (t_value e) m,
      (case nextElementSibling of
         None \<Rightarrow> None
       | Some display \<Rightarrow>
           if js ''scale-value'' \<in> set (classList display)
           then Some (display\<lparr>textContent := t_value e\<rparr>)
           else Some display))"

section \<open>Effects on the outside world\<close>

datatype effect =
    Alert jsstring
  | Fetch jsstring
  | SaveAs jsstring jsstring
  | Download jsstring jsstring
  | Persist answer_model
  | Console log_entry

section \<open>JSON text of the model (renderer.js, lines 207 to 217)\<close>

text \<open>
  \<open>JSON.stringify(model, null, 2)\<close> on an object whose property values are strings.
  \<open>QuoteJSONString\<close> walks the code points of the string: a surrogate pair is copied,
  a lone surrogate and a control character are escaped.
\<close>

definition hexdigit :: "nat \<Rightarrow> jschar" where
  "hexdigit n = (if n < 10 then 0x30 + of_nat n else 0x61 + of_nat (n - 10))"

definition UnicodeEscape :: "jschar \<Rightarrow> jsstring" where
  "UnicodeEscape c =
     [0x5C, 0x75, hexdigit (unat c div 4096), hexdigit (unat c div 256 mod 16),
      hexdigit (unat c div 16 mod 16), hexdigit (unat c mod 16)]"

definition escape_unit :: "jschar \<Rightarrow> jsstring" where
  "escape_unit c =
     (if c = 0x08 then [0x5C, 0x62]
      else if c = 0x09 then [0x5C, 0x74]
      else if c = 0x0A then [0x5C, 0x6E]
      else if c = 0x0C then [0x5C, 0x66]
      else if c = 0x0D then [0x5C, 0x72]
      else if c = 0x22 then [0x5C, 0x22]
      else if c = 0x5C then [0x5C, 0x5C]
      else if c < 0x20 \<or> is_lead c \<or> is_trail c then UnicodeEscape c
      else [c])"

fun quote_units :: "jsstring \<Rightarrow> jsstring" where
  "quote_units [] = []"
| "quote_units [c] = escape_unit c"
| "quote_units (c # d # cs) =
     (if is_lead c \<and> is_trail d then c # d # quote_units cs
      else escape_unit c @ quote_units (d # cs))"

definition QuoteJSONString :: "jsstring \<Rightarrow> jsstring" where
  "QuoteJSONString s = 0x22 # quote_units s @ [0x22]"

text \<open>
  The own property keys of an object are enumerated with the array indices first, in
  ascending numeric order, and then the other keys in creation order.
\<close>

definition index_value :: "jsstring \<Rightarrow> nat" where
  "index_value k = foldl (\<lambda>n c. 10 * n + (unat c - 48)) 0 k"

definition is_array_index :: "jsstring \<Rightarrow> bool" where
  "is_array_index k =
     (k \<noteq> [] \<and> list_all is_digit k \<and> (k = [0x30] \<or> take 1 k \<noteq> [0x30])
      \<and> index_value k < 2 ^ 32 - 1)"

definition own_entries :: "answer_model \<Rightarrow> (jsstring \<times> jsstring) list" where
  "own_entries m =
     sort_key (\<lambda>(k, v). index_value k) (filter (\<lambda>(k, v). is_array_index k) m)
     @ filter (\<lambda>(k, v). \<not> is_array_index k) m"

fun join :: "jsstring \<Rightarrow> jsstring list \<Rightarrow> jsstring" where
  "join sep [] = []"
| "join sep [x] = x"
| "join sep (x # y # ys) = x @ sep @ join sep (y # ys)"

definition json_member :: "jsstring \<times> jsstring \<Rightarrow> jsstring" where
  "json_member kv = QuoteJSONString (fst kv) @ js '': '' @ QuoteJSONString (snd kv)"

definition JSON_stringify :: "answer_model \<Rightarrow> jsstring" where
  "JSON_stringify m =
     (let partial = map json_member (own_entries m)
      in if partial = [] then js ''{}''
         else js ''{'' @ [0x0A] @ js ''  '' @ join ([0x2C, 0x0A] @ js ''  '') partial
              @ [0x0A] @ js ''}'')"

definition export_click :: "answer_model \<Rightarrow> effect list \<times> answer_model" where
  "export_click m = ([Download (js ''respostas.json'') (JSON_stringify m)], m)"

text \<open>
  \<open>JSON.parse\<close> on the texts that denote an object whose members are strings; any other
  text gives \<open>None\<close>. Members are defined on the result in the order of the text, a
  later member replacing an earlier one with the same key.
\<close>

definition is_ws :: "jschar \<Rightarrow> bool" where
  "is_ws c = (c = 0x09 \<or> c = 0x0A \<or> c = 0x0D \<or> c = 0x20)"

definition hexvalue :: "jschar \<Rightarrow> nat option" where
  "hexvalue c =
     (if 0x30 \<le> c \<and> c \<le> 0x39 then Some (unat c - 0x30)
      else if 0x61 \<le> c \<and> c \<le> 0x66 then Some (unat c - 0x61 + 10)
      else if 0x41 \<le> c \<and> c \<le> 0x46 then Some (unat c - 0x41 + 10)
      else None)"

definition hex4 :: "jschar \<Rightarrow> jschar \<Rightarrow> jschar \<Rightarrow> jschar \<Rightarrow> jschar option" where
  "hex4 a b c d =
     (case (hexvalue a, hexvalue b, hexvalue c, hexvalue d) of
        (Some x, Some y, Some z, Some w) \<Rightarrow> Some (of_nat (((x * 16 + y) * 16 + z) * 16 + w))
      | _ \<Rightarrow> None)"

definition simple_escape :: "jschar \<Rightarrow> jschar option" where
  "simple_escape e =
     (if e = 0x22 then Some 0x22
      else if e = 0x5C then Some 0x5C
      else if e = 0x2F then Some 0x2F
      else if e = 0x62 then Some 0x08
      else if e = 0x66 then Some 0x0C
      else if e = 0x6E then Some 0x0A
      else if e = 0x72 then Some 0x0D
      else if e = 0x74 then Some 0x09
      else None)"

definition cons_result :: "jschar \<Rightarrow> (jsstring \<times> jsstring) option \<Rightarrow> (jsstring \<times> jsstring) option" where
  "cons_result c r = (case r of None \<Rightarrow> None | Some (s, rest) \<Rightarrow> Some (c # s, rest))"

text \<open>The characters of a string after its opening quote, up to the closing quote.\<close>

fun parse_chars :: "jsstring \<Rightarrow> (jsstring \<times> jsstring) option" where
  "parse_chars [] = None"
| "parse_chars (c # cs) =
     (if c = 0x22 then Some ([], cs)
      else if c = 0x5C then
        (case cs of
           [] \<Rightarrow> None
         | e # es \<Rightarrow>
             if e = 0x75 then
               (case es of
                  h1 # h2 # h3 # h4 # rest \<Rightarrow>
                    (case hex4 h1 h2 h3 h4 of
                       None \<Rightarrow> None
                     | Some u \<Rightarrow> cons_result u (parse_chars rest))
                | _ \<Rightarrow> None)
             else (case simple_escape e of
                     None \<Rightarrow> None
                   | Some u \<Rightarrow> cons_result u (parse_chars es)))
      else if c < 0x20 then None
      else cons_result c (parse_chars cs))"

definition parse_string :: "jsstring \<Rightarrow> (jsstring \<times> jsstring) option" where
  "parse_string inp = (case inp of [] \<Rightarrow> None | c # cs \<Rightarrow> if c = 0x22 then parse_chars cs else None)"

definition skip_ws :: "jsstring \<Rightarrow> jsstring" where
  "skip_ws inp = dropWhile is_ws inp"

definition expect :: "jschar \<Rightarrow> jsstring \<Rightarrow> jsstring option" where
  "expect c inp = (case skip_ws inp of [] \<Rightarrow> None | x # rest \<Rightarrow> if x = c then Some rest else None)"

text \<open>
  The members after the opening brace, one per unit of fuel; every member consumes at
  least one code unit, so the length of the text is enough fuel.
\<close>

fun parse_members ::
  "nat \<Rightarrow> jsstring \<Rightarrow> answer_model \<Rightarrow> (answer_model \<times> jsstring) option" where
  "parse_members 0 inp obj = None"
| "parse_members (Suc fuel) inp obj =
     (case parse_string (skip_ws inp) of
        None \<Rightarrow> None
      | Some (k, r1) \<Rightarrow>
          (case expect 0x3A r1 of
             None \<Rightarrow> None
           | Some r2 \<Rightarrow>
               (case parse_string (skip_ws r2) of
                  None \<Rightarrow> None
                | Some (v, r3) \<Rightarrow>
                    (case skip_ws r3 of
                       [] \<Rightarrow> None
                     | x # r4 \<Rightarrow>
                         if x = 0x7D then Some (AList.update k v obj, r4)
                         else if x = 0x2C then parse_members fuel r4 (AList.update k v obj)
                         else None))))"

definition JSON_parse :: "jsstring \<Rightarrow> answer_model option" where
  "JSON_parse text0 =
     (case expect 0x7B text0 of
        None \<Rightarrow> None
      | Some r \<Rightarrow>
          (case (case skip_ws r of
                   [] \<Rightarrow> None
                 | x # r' \<Rightarrow> if x = 0x7D then Some ([], r') else parse_members (length r) r [])
           of None \<Rightarrow> None
            | Some (obj, rest) \<Rightarrow> if skip_ws rest = [] then Some obj else None))"

section \<open>Saving and document generation (script.js, lines 111 to 171)\<close>

text \<open>
  Modelled from the spec: \<open>salvarPaciente\<close> is defined in db.js, which is not part of
  the sources at hand. The persistence collaborator accepts the full answer model and
  stores it; the call succeeds or fails and leaves the model as it is.
\<close>

definition salvarPaciente :: "bool \<Rightarrow> answer_model \<Rightarrow> bool \<times> effect list \<times> answer_model" where
  "salvarPaciente storage_ok m = (storage_ok, [Persist m], m)"

definition save_click :: "bool \<Rightarrow> answer_model \<Rightarrow> effect list \<times> answer_model" where
  "save_click storage_ok m =
     (case salvarPaciente storage_ok m of
        (ok, stored, m') \<Rightarrow>
          ([Console (Console_log (js ''Modelo para salvar:''))] @ stored
           @ (if ok then [Alert (js ''Paciente salvo com sucesso!'')]
              else [Console (Console_error (js ''Erro ao salvar:'')),
                    Alert (js ''Erro ao salvar paciente.'')]),
           m'))"

text \<open>The fields of the current instant in UTC, as \<open>toISOString\<close> prints them.\<close>

record date =
  year :: int
  month :: nat
  day :: nat
  hours :: nat
  minutes :: nat
  seconds :: nat
  milliseconds :: nat

fun digits :: "nat \<Rightarrow> nat \<Rightarrow> jsstring" where
  "digits 0 x = []"
| "digits (Suc w) x = digits w (x div 10) @ [0x30 + of_nat (x mod 10)]"

definition toISOString :: "date \<Rightarrow> jsstring" where
  "toISOString d =
     (if 0 \<le> year d \<and> year d \<le> 9999 then digits 4 (nat (year d))
      else (if year d < 0 then js ''-'' else js ''+'') @ digits 6 (nat \<bar>year d\<bar>))
     @ js ''-'' @ digits 2 (month d) @ js ''-'' @ digits 2 (day d)
     @ js ''T'' @ digits 2 (hours d) @ js '':'' @ digits 2 (minutes d)
     @ js '':'' @ digits 2 (seconds d) @ js ''.'' @ digits 3 (milliseconds d) @ js ''Z''"

fun split :: "jschar \<Rightarrow> jsstring \<Rightarrow> jsstring list" where
  "split sep [] = [[]]"
| "split sep (c # cs) =
     (if c = sep then [] # split sep cs
      else (case split sep cs of [] \<Rightarrow> [[c]] | p # ps \<Rightarrow> (c # p) # ps))"

definition first_piece :: "jsstring list \<Rightarrow> jsstring" where
  "first_piece ps = (case ps of [] \<Rightarrow> js ''undefined'' | p # rest \<Rightarrow> p)"

definition nome :: "answer_model \<Rightarrow> jsstring" where
  "nome m =
     (case model_get m (js ''ident_nome'') of
        None \<Rightarrow> js ''Paciente''
      | Some v \<Rightarrow> if v = [] then js ''Paciente'' else v)"

definition docx_name :: "answer_model \<Rightarrow> date \<Rightarrow> jsstring" where
  "docx_name m now =
     js ''Registro_'' @ nome m @ js ''_''
     @ first_piece (split 0x54 (toISOString now)) @ js ''.docx''"

text \<open>
  What \<open>gerarDoc\<close> finds around it: whether the two libraries and \<open>saveAs\<close> are
  defined, the bytes of template.docx (\<open>None\<close> when the fetch or the read of its body
  rejects), the templating pipeline of the libraries from the template and the data to
  the generated document (\<open>None\<close> when a step throws), and the clock.
\<close>

record doc_env =
  PizZip_defined :: bool
  docxtemplater_defined :: bool
  saveAs_defined :: bool
  template_docx :: "jsstring option"
  generate :: "jsstring \<Rightarrow> answer_model \<Rightarrow> jsstring option"
  now :: date

definition Falha :: "effect list" where
  "Falha = [Console (Console_error (js ''Erro ao gerar DOCX:'')),
            Alert (js ''Falha ao gerar documento. Verifique o console.'')]"

definition gerarDoc :: "doc_env \<Rightarrow> answer_model \<Rightarrow> effect list \<times> answer_model" where
  "gerarDoc env m =
     (if \<not> PizZip_defined env \<or> \<not> docxtemplater_defined env
      then ([Alert (js ''Bibliotecas PizZip/docxtemplater n'' @ [0xE3] @ js ''o carregadas!'')], m)
      else
        (Fetch (js ''template.docx'')
         # (case template_docx env of
              None \<Rightarrow> Falha
            | Some content \<Rightarrow>
                (case generate env content m of
                   None \<Rightarrow> Falha
                 | Some out \<Rightarrow>
                     if saveAs_defined env
                     then [SaveAs out (docx_name m (now env)),
                           Alert (js ''Documento gerado com sucesso!'')]
                     else Falha)),
         m))"

section \<open>A session: the events a user can cause\<close>

datatype event =
    Field_event nat nat path jsstring jsstring
  | Radio_choice nat nat path
  | Title_click nat
  | Export_click
  | Script_input target
  | Script_radio target
  | Script_range target "display_el option"
  | Save_click bool
  | GerarDoc_click doc_env

record session =
  the_page :: page
  the_model :: answer_model
  effects :: "effect list"

definition unit_at :: "page \<Rightarrow> nat \<Rightarrow> nat \<Rightarrow> unit_el option" where
  "unit_at pg s i =
     (case root pg of
        None \<Rightarrow> None
      | Some secs \<Rightarrow>
          if s < length secs \<and> i < length (sec_units (secs ! s))
          then Some (sec_units (secs ! s) ! i) else None)"

fun dispatch :: "event \<Rightarrow> session \<Rightarrow> session" where
  "dispatch (Field_event s i p ty v) st =
     (case unit_at (the_page st) s i of
        None \<Rightarrow> st
      | Some u \<Rightarrow> st\<lparr>the_model := fire u p ty v (the_model st)\<rparr>)"
| "dispatch (Radio_choice s i p) st =
     (case unit_at (the_page st) s i of
        None \<Rightarrow> st
      | Some u \<Rightarrow> st\<lparr>the_model := select_radio u p (the_model st)\<rparr>)"
| "dispatch (Title_click s) st = st\<lparr>the_page := title_click s (the_page st)\<rparr>"
| "dispatch Export_click st =
     (case export_click (the_model st) of
        (out, m) \<Rightarrow> st\<lparr>the_model := m, effects := effects st @ out\<rparr>)"
| "dispatch (Script_input e) st =
     (case input_listener e (the_model st, []) of
        (m, out) \<Rightarrow> st\<lparr>the_model := m, effects := effects st @ map Console out\<rparr>)"
| "dispatch (Script_radio e) st =
     (case radio_listener e (the_model st, []) of
        (m, out) \<Rightarrow> st\<lparr>the_model := m, effects := effects st @ map Console out\<rparr>)"
| "dispatch (Script_range e sibling) st =
     (case range_listener e sibling (the_model st) of
        (m, shown) \<Rightarrow> st\<lparr>the_model := m\<rparr>)"
| "dispatch (Save_click storage_ok) st =
     (case save_click storage_ok (the_model st) of
        (out, m) \<Rightarrow> st\<lparr>the_model := m, effects := effects st @ out\<rparr>)"
| "dispatch (GerarDoc_click env) st =
     (case gerarDoc env (the_model st) of
        (out, m) \<Rightarrow> st\<lparr>the_model := m, effects := effects st @ out\<rparr>)"

text \<open>A session starts with the rendered page and the empty model of line 20.\<close>

definition start :: "fetch_outcome \<Rightarrow> bool \<Rightarrow> session" where
  "start f has_container =
     \<lparr>the_page = snd (renderFormulario f (load_page has_container)),
      the_model = model, effects = []\<rparr>"

definition run :: "event list \<Rightarrow> session \<Rightarrow> session" where
  "run es st = fold dispatch es st"

section \<open>The assembly as the specification words it\<close>

text \<open>
  The field renderer registry of the specification: the renderer a descriptor's type
  selects, none for an unrecognized type; and the units a descriptor contributes to its
  section.
\<close>

definition registry :: "descriptor \<Rightarrow> (error + unit_el) option" where
  "registry item =
     (if item_type item = js ''text'' then Some (renderText item)
      else if item_type item = js ''number'' then Some (renderNumber item)
      else if item_type item = js ''date'' then Some (renderDate item)
      else if item_type item = js ''textarea'' then Some (renderTextarea item)
      else if item_type item = js ''sim_nao'' then Some (renderSimNao item)
      else if item_type item = js ''radio'' then Some (renderRadio item)
      else None)"

definition units_of :: "descriptor \<Rightarrow> unit_el list" where
  "units_of item = (case registry item of Some (Inr u) \<Rightarrow> [u] | _ \<Rightarrow> [])"



definition sections_view :: "page \<Rightarrow> (jsstring \<times> unit_el list) list" where
  "sections_view pg =
     (case root pg of None \<Rightarrow> [] | Some secs \<Rightarrow> map (\<lambda>s. (section_label s, sec_units s)) secs)"

text \<open>
  The descriptors on which the parsers above are followed and every renderer succeeds.
  The text holds only characters the HTML parser copies. The id of a field holds only
  characters that are copied in an attribute value; where the renderer also writes the
  id between the quotes of the selector \<open>input[name="..."]\<close> (the yes/no and the radio
  fields), it holds only characters that are copied there as well. The id of a yes/no
  field with an observation, followed by \<open>_obs\<close>, is a name that \<open>#\<close> accepts. A radio
  descriptor carries its options, each of characters that are copied both in an
  attribute value and in text. A descriptor of an unrecognized type is not rendered and
  is not restricted.
\<close>

definition plain_text :: "jsstring \<Rightarrow> bool" where
  "plain_text s = list_all text_char s"

definition plain_attr :: "jsstring \<Rightarrow> bool" where
  "plain_attr s = list_all attr_char s"

definition plain_value :: "jsstring \<Rightarrow> bool" where
  "plain_value s = list_all string_char s"

definition plain_option :: "jsstring \<Rightarrow> bool" where
  "plain_option v = (plain_attr v \<and> plain_text v)"


text \<open>The section \<open>createSection\<close> appends for a title of plain text.\<close>

definition plain_section :: "jsstring \<Rightarrow> form_section" where
  "plain_section t =
     \<lparr>sec_title = Elem (js ''div'') [(js ''class'', js ''section-title'')]
                    (if t = [] then [] else [Txt t]),
      sec_content = Elem (js ''div'') [(js ''class'', js ''section-content'')] [],
      title_active = False, content_open = False, sec_units = []\<rparr>"

section \<open>Example descriptors\<close>

definition field :: "string \<Rightarrow> string \<Rightarrow> descriptor" where
  "field ty i =
     \<lparr>item_type = js ty, item_id = js i, item_text = js i, options = None,
      has_observation = False\<rparr>"

definition group :: "string \<Rightarrow> descriptor" where
  "group t =
     \<lparr>item_type = js ''group'', item_id = [], item_text = js t, options = None,
      has_observation = False\<rparr>"

text \<open>A page on which neither library was loaded, at noon on 3 November 2026.\<close>

definition noon :: date where
  "noon = \<lparr>year = 2026, month = 11, day = 3, hours = 12, minutes = 0, seconds = 0,
           milliseconds = 0\<rparr>"

definition no_libraries :: doc_env where
  "no_libraries =
     \<lparr>PizZip_defined = False, docxtemplater_defined = False, saveAs_defined = True,
      template_docx = Some [], generate = (\<lambda>content m. Some []), now = noon\<rparr>"

section \<open>Auxiliary notions for the assembly proofs\<close>

text \<open>
  The sections after one more descriptor, the value of \<open>secAtual\<close> that goes with a
  list of sections, and one step of the specification's machine.
\<close>

definition next_sections :: "descriptor \<Rightarrow> form_section list \<Rightarrow> form_section list" where
  "next_sections d secs =
     (if item_type d = js ''group'' then secs @ [plain_section (item_text d)]
      else if secs = [] then [(plain_section Geral)\<lparr>sec_units := units_of d\<rparr>]
      else butlast secs @ [(last secs)\<lparr>sec_units := sec_units (last secs) @ units_of d\<rparr>])"






definition schema_broken :: "descriptor list" where
  "schema_broken = [group ''A'', field ''radio'' ''y'', field ''text'' ''x'']"


text \<open>The id of an element of the page, and all the units of the page in order.\<close>

definition element_id :: "page \<Rightarrow> nat \<Rightarrow> nat \<Rightarrow> path \<Rightarrow> jsstring option" where
  "element_id pg s i p =
     (case unit_at pg s i of
        None \<Rightarrow> None
      | Some u \<Rightarrow> (case node_at (wrap u) p of None \<Rightarrow> None | Some n \<Rightarrow> attr (js ''id'') n))"

definition all_units :: "page \<Rightarrow> unit_el list" where
  "all_units pg = concat (map snd (sections_view pg))"

text \<open>
  A text field whose label text is markup, a yes/no field with an observation whose id
  is a number, and the schema of that field followed by a text field.
\<close>

definition markup :: descriptor where
  "markup = (field ''text'' ''nome'')\<lparr>item_text := js ''<input>''\<rparr>"

definition numbered :: descriptor where
  "numbered = (field ''sim_nao'' ''1'')\<lparr>has_observation := True\<rparr>"

definition schema_numbered :: "descriptor list" where
  "schema_numbered = [numbered, field ''text'' ''z'']"

text \<open>Two yes/no descriptors with an observation field, and an answer.\<close>

definition proto_dor :: descriptor where
  "proto_dor = (field ''sim_nao'' ''__proto__'')\<lparr>has_observation := True\<rparr>"

definition dor :: descriptor where
  "dor = (field ''sim_nao'' ''dor'')\<lparr>has_observation := True\<rparr>"

definition febre :: jsstring where
  "febre = js ''febre''"

text \<open>A sequence of writes to the model, in order.\<close>

definition apply_writes :: "(jsstring \<times> jsstring) list \<Rightarrow> answer_model \<Rightarrow> answer_model" where
  "apply_writes kvs m = fold (\<lambda>(k, v). model_set k v) kvs m"

text \<open>A filled model, and a page on which the libraries are loaded.\<close>

definition maria :: answer_model where
  "maria = [(js ''ident_nome'', js ''Maria''), (js ''dor'', Sim)]"

definition libraries_loaded :: doc_env where
  "libraries_loaded =
     \<lparr>PizZip_defined = True, docxtemplater_defined = True, saveAs_defined = True,
      template_docx = Some [], generate = (\<lambda>content m. Some content), now = noon\<rparr>"

text \<open>The separator \<open>JSON_stringify\<close> puts between two members.\<close>

definition member_separator :: jsstring where
  "member_separator = [0x2C, 0x0A] @ js ''  ''"

section \<open>Facts about the model and the renderers\<close>

lemmas dom_defs = querySelector_def querySelectorAll_def set_innerHTML_def campo_def el_def
  no_opts_def truthy_def addEventListener_def addEventListener_each_def attr_or_empty_def
  and_then_def

lemma model_get_set_same: "k \<noteq> js ''__proto__'' \<Longrightarrow> model_get (model_set k v m) k = Some v"
  by (simp add: model_get_def model_set_def update_conv')

lemma model_get_set_other: "k' \<noteq> k \<Longrightarrow> model_get (model_set k v m) k' = model_get m k'"
  by (simp add: model_get_def model_set_def update_conv')

lemma model_keys_set: "model_keys m \<subseteq> model_keys (model_set k v m)"
  by (auto simp add: model_keys_def model_set_def dom_update)

lemma name_char_plain: "name_char c \<Longrightarrow> attr_char c \<and> string_char c"
  by (auto simp add: name_char_def letter_def lower_def is_digit_def attr_char_def
        string_char_def is_lead_def is_trail_def word_le_nat_alt)

lemma css_ident_obs:
  assumes "css_ident (s @ js ''_obs'')"
  shows "plain_attr s" and "plain_value s" and "plain_attr (s @ js ''_obs'')"
proof -
  have "list_all name_char (s @ js ''_obs'')"
    using assms by (cases s) (auto simp add: css_ident_def js_def name_char_def)
  then have a: "\<forall>c\<in>set (s @ js ''_obs''). attr_char c \<and> string_char c"
    using name_char_plain by (auto simp add: list_all_iff)
  show "plain_attr s" using a by (simp add: plain_attr_def list_all_iff)
  show "plain_value s" using a by (simp add: plain_value_def list_all_iff)
  show "plain_attr (s @ js ''_obs'')" using a by (simp add: plain_attr_def list_all_iff)
qed

lemma parse_inner_plain:
  "plain_text s \<Longrightarrow> parse_inner s = Some (if s = [] then [] else [Txt s])"
proof (induction s)
  case Nil
  then show ?case by simp
next
  case (Cons c cs)
  then have c: "text_char c" and cs: "plain_text cs" by (simp_all add: plain_text_def)
  then have "c \<noteq> 0x3C" by (simp add: text_char_def)
  then show ?case using c Cons.IH[OF cs] by (simp add: add_char_def)
qed

lemma inner_nodes_plain:
  "plain_text s \<Longrightarrow> inner_nodes s = Inr (if s = [] then [] else [Txt s])"
  by (simp add: inner_nodes_def parse_inner_plain)

lemma inner_nodes_option:
  "plain_text v \<Longrightarrow> inner_nodes (js '' '' @ v) = Inr [Txt (js '' '' @ v)]"
  using inner_nodes_plain[of "js '' '' @ v"]
  by (simp add: plain_text_def js_def text_char_def is_lead_def is_trail_def)

lemma attr_value_plain: "plain_attr s \<Longrightarrow> attr_value s = Inr s"
  by (simp add: attr_value_def plain_attr_def)

lemma parse_selector_input: "parse_selector (js ''input'') = Inr (Tag (js ''input''))"
  by (simp add: parse_selector_def js_def lower_def Let_def)

lemma parse_selector_textarea: "parse_selector (js ''textarea'') = Inr (Tag (js ''textarea''))"
  by (simp add: parse_selector_def js_def lower_def Let_def)

lemma string_value:
  assumes "plain_value v"
  shows "takeWhile string_char (v @ [0x22, 0x5D]) = v"
    and "dropWhile string_char (v @ [0x22, 0x5D]) = [0x22, 0x5D]"
proof -
  have a: "\<forall>x\<in>set v. string_char x" using assms by (simp add: plain_value_def list_all_iff)
  have q: "\<not> string_char 0x22" by (simp add: string_char_def)
  show "takeWhile string_char (v @ [0x22, 0x5D]) = v"
    using a q by (simp add: takeWhile_append2)
  show "dropWhile string_char (v @ [0x22, 0x5D]) = [0x22, 0x5D]"
    using a q by (simp add: dropWhile_append2)
qed

lemma parse_selector_by_name:
  assumes "plain_value v"
  shows "parse_selector (by_name v) = Inr (TagAttr (js ''input'') (js ''name'') v)"
  using string_value[OF assms]
  by (simp add: parse_selector_def by_name_def js_def lower_def Let_def)

lemma parse_selector_id: "css_ident s \<Longrightarrow> parse_selector (js ''#'' @ s) = Inr (Id s)"
  by (simp add: parse_selector_def js_def)

lemma label_for_plain:
  "plain_text (item_text item) \<Longrightarrow> plain_attr (item_id item) \<Longrightarrow>
   label_for item = Inr (Elem (js ''label'') [(js ''for'', item_id item)]
                           (if item_text item = [] then [] else [Txt (item_text item)]))"
  by (simp add: label_for_def and_then_def attr_value_plain inner_nodes_plain)

lemma radio_option_plain:
  "plain_attr name \<Longrightarrow> plain_option v \<Longrightarrow>
   radio_option name v =
     Inr (Elem (js ''label'') []
            [Elem (js ''input'') [(js ''type'', js ''radio''), (js ''name'', name),
                                  (js ''value'', v)] [],
             Txt (js '' '' @ v)])"
  by (simp add: radio_option_def and_then_def attr_value_plain inner_nodes_option
        plain_option_def)

lemma plain_option_Sim: "plain_option Sim"
  by (simp add: plain_option_def plain_attr_def plain_text_def Sim_def js_def attr_char_def
        text_char_def is_lead_def is_trail_def)

lemma plain_option_Nao: "plain_option Nao"
  by (simp add: plain_option_def plain_attr_def plain_text_def Nao_def js_def attr_char_def
        text_char_def is_lead_def is_trail_def)

lemma renderText_unit:
  assumes "plain_text (item_text item)" and "plain_attr (item_id item)"
  shows "renderText item = Inr \<lparr>wrap = Elem (js ''div'') [(js ''class'', js ''campo'')]
      [Elem (js ''label'') [(js ''for'', item_id item)]
         (if item_text item = [] then [] else [Txt (item_text item)]),
       Elem (js ''input'') [(js ''type'', js ''text''), (js ''id'', item_id item),
                            (js ''name'', item_id item)] []],
      listeners = [([1], js ''input'', StoreValue (item_id item))]\<rparr>"
  using assms
  by (simp add: renderText_def bind_input_def input_of_def label_for_plain attr_value_plain
        parse_selector_input dom_defs)
    (simp add: js_def)

lemma renderNumber_unit:
  assumes "plain_text (item_text item)" and "plain_attr (item_id item)"
  shows "renderNumber item = Inr \<lparr>wrap = Elem (js ''div'') [(js ''class'', js ''campo'')]
      [Elem (js ''label'') [(js ''for'', item_id item)]
         (if item_text item = [] then [] else [Txt (item_text item)]),
       Elem (js ''input'') [(js ''type'', js ''number''), (js ''id'', item_id item),
                            (js ''name'', item_id item)] []],
      listeners = [([1], js ''input'', StoreValue (item_id item))]\<rparr>"
  using assms
  by (simp add: renderNumber_def bind_input_def input_of_def label_for_plain attr_value_plain
        parse_selector_input dom_defs)
    (simp add: js_def)

lemma renderDate_unit:
  assumes "plain_text (item_text item)" and "plain_attr (item_id item)"
  shows "renderDate item = Inr \<lparr>wrap = Elem (js ''div'') [(js ''class'', js ''campo'')]
      [Elem (js ''label'') [(js ''for'', item_id item)]
         (if item_text item = [] then [] else [Txt (item_text item)]),
       Elem (js ''input'') [(js ''type'', js ''date''), (js ''id'', item_id item),
                            (js ''name'', item_id item)] []],
      listeners = [([1], js ''input'', StoreValue (item_id item))]\<rparr>"
  using assms
  by (simp add: renderDate_def bind_input_def input_of_def label_for_plain attr_value_plain
        parse_selector_input dom_defs)
    (simp add: js_def)

lemma renderTextarea_unit:
  assumes "plain_text (item_text item)" and "plain_attr (item_id item)"
  shows "renderTextarea item = Inr \<lparr>wrap = Elem (js ''div'') [(js ''class'', js ''campo'')]
      [Elem (js ''label'') [(js ''for'', item_id item)]
         (if item_text item = [] then [] else [Txt (item_text item)]),
       Elem (js ''textarea'') [(js ''id'', item_id item), (js ''name'', item_id item),
                               (js ''rows'', js ''3'')] []],
      listeners = [([1], js ''input'', StoreValue (item_id item))]\<rparr>"
  using assms
  by (simp add: renderTextarea_def bind_input_def textarea_of_def label_for_plain
        attr_value_plain parse_selector_textarea dom_defs)
    (simp add: js_def)

lemma Ask_wrapper:
  "el (js ''div'') (no_opts\<lparr>cls := Some (js ''Ask'')\<rparr>) []
     = Inr (Elem (js ''div'') [(js ''class'', js ''Ask'')] [])"
  by (simp add: el_def no_opts_def truthy_def js_def)

lemma campo_wrapper: "campo = Inr (Elem (js ''div'') [(js ''class'', js ''campo'')] [])"
  by (simp add: campo_def el_def no_opts_def truthy_def js_def)

lemma renderSimNao_obs_unit:
  assumes "has_observation item" and "plain_text (item_text item)"
    and "css_ident (item_id item @ js ''_obs'')"
  shows "renderSimNao item = Inr \<lparr>wrap = Elem (js ''div'') [(js ''class'', js ''Ask'')]
       [Elem (js ''label'') [(js ''class'', js ''ask-label'')]
          (if item_text item = [] then [] else [Txt (item_text item)]),
        Elem (js ''div'') [(js ''class'', js ''radio-group'')]
          [Elem (js ''label'') []
             [Elem (js ''input'') [(js ''type'', js ''radio''), (js ''name'', item_id item),
                                   (js ''value'', Sim)] [],
              Txt (js '' '' @ Sim)],
           Elem (js ''label'') []
             [Elem (js ''input'') [(js ''type'', js ''radio''), (js ''name'', item_id item),
                                   (js ''value'', Nao)] [],
              Txt (js '' '' @ Nao)]],
        Elem (js ''textarea'') [(js ''id'', item_id item @ js ''_obs''),
                                (js ''placeholder'', Observacoes)] []],
     listeners = [([1, 0, 0], js ''change'', StoreValue (item_id item)),
                  ([1, 1, 0], js ''change'', StoreValue (item_id item)),
                  ([2], js ''input'', StoreValue (item_id item @ js ''_obs''))]\<rparr>"
proof -
  note p = css_ident_obs[OF assms(3)]
  have obs: "observation_of item
      = Inr [Elem (js ''textarea'') [(js ''id'', item_id item @ js ''_obs''),
                                     (js ''placeholder'', Observacoes)] []]"
    using assms(1) p(3) by (simp add: observation_of_def attr_value_plain and_then_def)
  show ?thesis
    apply (simp only: renderSimNao_def Ask_wrapper inner_nodes_plain[OF assms(2)] obs
        radio_option_plain[OF p(1) plain_option_Sim] radio_option_plain[OF p(1) plain_option_Nao]
        and_then_def sum.case Let_def set_innerHTML_def node.case append_Cons append_Nil
        querySelectorAll_def querySelector_def parse_selector_by_name[OF p(2)]
        parse_selector_id[OF assms(3)] assms(1) if_True)
    apply (simp add: js_def addEventListener_each_def addEventListener_def)
    done
qed






lemma new_section_plain: "plain_text t \<Longrightarrow> new_section t = Inr (plain_section t)"
  by (simp add: new_section_def plain_section_def el_def no_opts_def truthy_def and_then_def
        inner_nodes_plain js_def)


lemma plain_text_Geral: "plain_text Geral"
  by (simp add: plain_text_def Geral_def js_def text_char_def is_lead_def is_trail_def)

lemma createSection_plain:
  "root pg = Some secs \<Longrightarrow> plain_text t \<Longrightarrow>
   createSection t pg = Inr (length secs, pg\<lparr>root := Some (secs @ [plain_section t])\<rparr>)"
  by (simp add: createSection_def new_section_plain and_then_def)


lemmas eval_defs = renderFormulario_def carregarPerguntas_def load_page_def each_item_def
  createSection_def new_section_def renderItem_def append_rendered_def appendChild_def
  renderText_def renderNumber_def renderDate_def renderTextarea_def renderSimNao_def
  renderRadio_def label_for_def input_of_def textarea_of_def bind_input_def
  radio_option_def observation_of_def by_name_def inner_nodes_def attr_value_def
  parse_selector_def text_char_def attr_char_def string_char_def add_char_def lower_def
  letter_def name_char_def css_ident_def is_digit_def is_lead_def is_trail_def dom_defs
  Let_def field_def group_def js_def Geral_def Sim_def Nao_def Observacoes_def

lemma fire_single:
  "node_at (wrap u) p = Some n \<Longrightarrow> listeners u = [(p, ty, StoreValue k)] \<Longrightarrow>
   fire u p ty v m = model_set k v m"
  by (simp add: fire_def)

lemma append_obs_neq: "k @ js ''_obs'' \<noteq> k"
  by (simp add: js_def)

lemma neq_append_obs: "k \<noteq> k @ js ''_obs''"
  by (simp add: js_def)

lemma obs_not_proto: "k @ js ''_obs'' \<noteq> js ''__proto__''"
proof
  assume a: "k @ js ''_obs'' = js ''__proto__''"
  then have "length (k @ js ''_obs'') = length (js ''__proto__'')" by simp
  then have "length k = 5" by (simp add: js_def)
  then have "drop 5 (k @ js ''_obs'') = js ''_obs''" by simp
  with a show False by (simp add: js_def)
qed

lemma fold_listeners_other:
  "(\<And>q h. (q, ty, h) \<in> set ls \<Longrightarrow> h \<noteq> StoreValue k') \<Longrightarrow>
   model_get (fold (\<lambda>(q, t, h) acc. if q = p \<and> t = ty then run_handler h e acc else acc) ls m) k'
     = model_get m k'"
proof (induction ls arbitrary: m)
  case Nil
  then show ?case by simp
next
  case (Cons l ls)
  obtain q t h where l: "l = (q, t, h)" by (cases l)
  obtain k where h: "h = StoreValue k" by (cases h)
  have IH: "model_get (fold (\<lambda>(q, t, h) acc. if q = p \<and> t = ty then run_handler h e acc else acc) ls m') k'
     = model_get m' k'" for m'
    by (rule Cons.IH) (use Cons.prems in auto)
  show ?case
  proof (cases "q = p \<and> t = ty")
    case True
    then have "k \<noteq> k'" using Cons.prems[of q h] l h by auto
    then show ?thesis using True l h IH by (simp add: model_get_set_other)
  next
    case False
    then show ?thesis using l IH by auto
  qed
qed

lemma fire_other:
  "(\<And>q h. (q, ty, h) \<in> set (listeners u) \<Longrightarrow> h \<noteq> StoreValue k') \<Longrightarrow>
   model_get (fire u p ty v m) k' = model_get m k'"
  by (cases "node_at (wrap u) p") (simp_all add: fire_def fold_listeners_other)

section \<open>Scalar fields\<close>

text \<open>
  Where the text of a descriptor of type text, number, date or textarea is plain, its id
  is copied into the attributes and is not \<open>__proto__\<close>: rendering appends one unit
  whose input element carries the descriptor's id, and an input event with value \<open>v\<close>
  on that element leaves the model with exactly \<open>v\<close> under the id and every other key
  as it was. The input listener of script.js does the same on an element whose id is
  the descriptor's.
\<close>

lemma scalar_input_stores_value:
  assumes "item_type item \<in> {js ''text'', js ''number'', js ''date'', js ''textarea''}"
    and "plain_text (item_text item)" and "plain_attr (item_id item)"
    and "item_id item \<noteq> js ''__proto__''"
  shows "\<exists>u. (\<forall>s pg. renderItem item s pg = (None, appendChild s u pg))
           \<and> map_option (attr (js ''id'')) (node_at (wrap u) [1]) = Some (Some (item_id item))
           \<and> (\<forall>v m. model_get (fire u [1] (js ''input'') v m) (item_id item) = Some v
                  \<and> (\<forall>k. k \<noteq> item_id item \<longrightarrow>
                        model_get (fire u [1] (js ''input'') v m) k = model_get m k))
           \<and> (\<forall>e m out. t_id e = item_id item \<longrightarrow>
                  model_get (fst (input_listener e (m, out))) (item_id item) = Some (t_value e)
                  \<and> (\<forall>k. k \<noteq> item_id item \<longrightarrow>
                        model_get (fst (input_listener e (m, out))) k = model_get m k))"
proof -
  note rt = renderText_unit[OF assms(2,3)] and rn = renderNumber_unit[OF assms(2,3)]
    and rd = renderDate_unit[OF assms(2,3)] and ra = renderTextarea_unit[OF assms(2,3)]
  have script: "\<forall>e m out. t_id e = item_id item \<longrightarrow>
                  model_get (fst (input_listener e (m, out))) (item_id item) = Some (t_value e)
                  \<and> (\<forall>k. k \<noteq> item_id item \<longrightarrow>
                        model_get (fst (input_listener e (m, out))) k = model_get m k)"
    using assms(4) by (simp add: input_listener_def model_get_set_same model_get_set_other)
  have store: "model_get (model_set (item_id item) v m) (item_id item) = Some v
        \<and> (\<forall>k. k \<noteq> item_id item \<longrightarrow> model_get (model_set (item_id item) v m) k = model_get m k)" for v m
    using assms(4) by (simp add: model_get_set_same model_get_set_other)
  consider (t) "item_type item = js ''text''" | (n) "item_type item = js ''number''"
    | (d) "item_type item = js ''date''" | (a) "item_type item = js ''textarea''"
    using assms(1) by auto
  then show ?thesis
  proof cases
    case t
    have "\<forall>s pg. renderItem item s pg = (None, appendChild s (projr (renderText item)) pg)"
      using t by (simp add: renderItem_def append_rendered_def rt)
    moreover have "fire (projr (renderText item)) [1] (js ''input'') v m = model_set (item_id item) v m" for v m
      by (rule fire_single[where n = "Elem (js ''input'') [(js ''type'', js ''text''), (js ''id'', item_id item),
                                      (js ''name'', item_id item)] []"]) (simp_all add: rt)
    moreover have "map_option (attr (js ''id'')) (node_at (wrap (projr (renderText item))) [1]) = Some (Some (item_id item))"
      by (simp add: rt js_def)
    ultimately show ?thesis using script store by (intro exI[of _ "projr (renderText item)"]) simp
  next
    case n
    have "\<forall>s pg. renderItem item s pg = (None, appendChild s (projr (renderNumber item)) pg)"
      using n by (simp add: renderItem_def append_rendered_def rn js_def)
    moreover have "fire (projr (renderNumber item)) [1] (js ''input'') v m = model_set (item_id item) v m" for v m
      by (rule fire_single[where n = "Elem (js ''input'') [(js ''type'', js ''number''), (js ''id'', item_id item),
                                      (js ''name'', item_id item)] []"]) (simp_all add: rn)
    moreover have "map_option (attr (js ''id'')) (node_at (wrap (projr (renderNumber item))) [1]) = Some (Some (item_id item))"
      by (simp add: rn js_def)
    ultimately show ?thesis using script store by (intro exI[of _ "projr (renderNumber item)"]) simp
  next
    case d
    have "\<forall>s pg. renderItem item s pg = (None, appendChild s (projr (renderDate item)) pg)"
      using d by (simp add: renderItem_def append_rendered_def rd js_def)
    moreover have "fire (projr (renderDate item)) [1] (js ''input'') v m = model_set (item_id item) v m" for v m
      by (rule fire_single[where n = "Elem (js ''input'') [(js ''type'', js ''date''), (js ''id'', item_id item),
                                      (js ''name'', item_id item)] []"]) (simp_all add: rd)
    moreover have "map_option (attr (js ''id'')) (node_at (wrap (projr (renderDate item))) [1]) = Some (Some (item_id item))"
      by (simp add: rd js_def)
    ultimately show ?thesis using script store by (intro exI[of _ "projr (renderDate item)"]) simp
  next
    case a
    have "\<forall>s pg. renderItem item s pg = (None, appendChild s (projr (renderTextarea item)) pg)"
      using a by (simp add: renderItem_def append_rendered_def ra js_def)
    moreover have "fire (projr (renderTextarea item)) [1] (js ''input'') v m = model_set (item_id item) v m" for v m
      by (rule fire_single[where n = "Elem (js ''textarea'') [(js ''id'', item_id item), (js ''name'', item_id item),
                                         (js ''rows'', js ''3'')] []"]) (simp_all add: ra)
    moreover have "map_option (attr (js ''id'')) (node_at (wrap (projr (renderTextarea item))) [1]) = Some (Some (item_id item))"
      by (simp add: ra js_def)
    ultimately show ?thesis using script store by (intro exI[of _ "projr (renderTextarea item)"]) simp
  qed
qed

text \<open>
  A text field whose label text is the markup \<open><input>\<close>: the listener is registered on
  the element the text inserts, not on the element that carries the descriptor's id, and
  an input event on the latter leaves the model empty.
\<close>

lemma markup_moves_the_listener:
  "element_id (the_page (start (Body [markup]) True)) 0 0 [1] = Some (js ''nome'')
   \<and> map listeners (all_units (the_page (start (Body [markup]) True)))
       = [[([0, 0], js ''input'', StoreValue (js ''nome''))]]
   \<and> the_model (run [Field_event 0 0 [1] (js ''input'') (js ''abc'')]
                   (start (Body [markup]) True)) = []"
  by (simp add: eval_defs markup_def element_id_def unit_at_def start_def run_def fire_def
        model_def all_units_def sections_view_def)

text \<open>
  C1. The claim fails on the code for a descriptor whose id is \<open>__proto__\<close>: the field
  is rendered with that id, and after an input event with the value \<open>abc\<close> on its input
  element the model holds no entry under the id; the model is as it was.
\<close>

theorem scalar_input_proto_id:
  "fst (renderFormulario (Body [field ''text'' ''__proto__'']) (load_page True)) = None
   \<and> element_id (the_page (start (Body [field ''text'' ''__proto__'']) True)) 0 0 [1]
       = Some (js ''__proto__'')
   \<and> map listeners (all_units (the_page (start (Body [field ''text'' ''__proto__'']) True)))
       = [[([1], js ''input'', StoreValue (js ''__proto__''))]]
   \<and> the_model (run [Field_event 0 0 [1] (js ''input'') (js ''abc'')]
                   (start (Body [field ''text'' ''__proto__'']) True)) = model
   \<and> model_get model (js ''__proto__'') = None"
  by (simp add: eval_defs element_id_def unit_at_def start_def run_def fire_def model_def
        model_get_def model_set_def all_units_def sections_view_def)

section \<open>Yes/no fields with an observation\<close>

text \<open>
  Where the text of a yes/no descriptor with an observation is plain, its id followed by
  \<open>_obs\<close> is a name that \<open>#\<close> accepts, and the id is not \<open>__proto__\<close>: choosing the
  second radio button stores its value under the id; typing \<open>t\<close> into the observation
  field afterwards stores \<open>t\<close> under the id followed by \<open>_obs\<close> and keeps the choice;
  and neither write changes the other key.
\<close>

lemma sim_nao_choice_and_observation:
  assumes "item_type item = js ''sim_nao''" and "has_observation item"
    and "plain_text (item_text item)" and "css_ident (item_id item @ js ''_obs'')"
    and "item_id item \<noteq> js ''__proto__''"
  shows "\<exists>u. (\<forall>s pg. renderItem item s pg = (None, appendChild s u pg))
     \<and> map_option (attr (js ''value'')) (node_at (wrap u) [1, 1, 0]) = Some (Some Nao)
     \<and> map_option (attr (js ''id'')) (node_at (wrap u) [2]) = Some (Some (item_id item @ js ''_obs''))
     \<and> (\<forall>m t. model_get (select_radio u [1, 1, 0] m) (item_id item) = Some Nao
            \<and> model_get (fire u [2] (js ''input'') t (select_radio u [1, 1, 0] m))
                 (item_id item @ js ''_obs'') = Some t
            \<and> model_get (fire u [2] (js ''input'') t (select_radio u [1, 1, 0] m))
                 (item_id item) = Some Nao)
     \<and> (\<forall>m t. model_get (fire u [2] (js ''input'') t m) (item_id item) = model_get m (item_id item))
     \<and> (\<forall>m p. model_get (select_radio u p m) (item_id item @ js ''_obs'')
                 = model_get m (item_id item @ js ''_obs''))"
proof -
  define u where "u = projr (renderSimNao item)"
  note ru = renderSimNao_obs_unit[OF assms(2,3,4)]
  have u: "renderSimNao item = Inr u" and
    w: "wrap u = Elem (js ''div'') [(js ''class'', js ''Ask'')]
       [Elem (js ''label'') [(js ''class'', js ''ask-label'')]
          (if item_text item = [] then [] else [Txt (item_text item)]),
        Elem (js ''div'') [(js ''class'', js ''radio-group'')]
          [Elem (js ''label'') []
             [Elem (js ''input'') [(js ''type'', js ''radio''), (js ''name'', item_id item),
                                   (js ''value'', Sim)] [],
              Txt (js '' '' @ Sim)],
           Elem (js ''label'') []
             [Elem (js ''input'') [(js ''type'', js ''radio''), (js ''name'', item_id item),
                                   (js ''value'', Nao)] [],
              Txt (js '' '' @ Nao)]],
        Elem (js ''textarea'') [(js ''id'', item_id item @ js ''_obs''),
                                (js ''placeholder'', Observacoes)] []]"
    and l: "listeners u = [([1,0,0], js ''change'', StoreValue (item_id item)), ([1,1,0], js ''change'', StoreValue (item_id item)),
        ([2], js ''input'', StoreValue (item_id item @ js ''_obs''))]"
    by (simp_all add: u_def ru)
  have r: "\<forall>s pg. renderItem item s pg = (None, appendChild s u pg)"
    using assms(1) u by (simp add: renderItem_def append_rendered_def js_def)
  have nao: "node_at (wrap u) [1, 1, 0] = Some (Elem (js ''input'') [(js ''type'', js ''radio''), (js ''name'', item_id item),
                             (js ''value'', Nao)] [])"
    by (simp add: w)
  have obs: "node_at (wrap u) [2] = Some (Elem (js ''textarea'') [(js ''id'', item_id item @ js ''_obs''),
                                                  (js ''placeholder'', Observacoes)] [])"
    by (simp add: w)
  have sel: "select_radio u [1, 1, 0] m = model_set (item_id item) Nao m" for m
    using nao l by (simp add: select_radio_def fire_def attr_or_empty_def js_def)
  have typed: "fire u [2] (js ''input'') t m = model_set (item_id item @ js ''_obs'') t m" for t m
    using obs l by (simp add: fire_def js_def)
  have any: "model_get (select_radio u p m) (item_id item @ js ''_obs'')
                 = model_get m (item_id item @ js ''_obs'')" for p m
  proof (cases "node_at (wrap u) p")
    case None
    then show ?thesis by (simp add: select_radio_def)
  next
    case (Some n)
    have "model_get (fire u p (js ''change'') (attr_or_empty (js ''value'') n) m)
            (item_id item @ js ''_obs'') = model_get m (item_id item @ js ''_obs'')"
      by (rule fire_other) (auto simp add: l js_def)
    then show ?thesis using Some by (simp add: select_radio_def)
  qed
  have p1: "map_option (attr (js ''value'')) (node_at (wrap u) [1, 1, 0]) = Some (Some Nao)"
    using nao by (simp add: js_def)
  have p2: "map_option (attr (js ''id'')) (node_at (wrap u) [2]) = Some (Some (item_id item @ js ''_obs''))"
    using obs by (simp add: js_def)
  have p3: "model_get (select_radio u [1, 1, 0] m) (item_id item) = Some Nao" for m
    using sel[of m] assms(5) by (simp add: model_get_set_same)
  have p4: "model_get (fire u [2] (js ''input'') t m) (item_id item @ js ''_obs'') = Some t" for t m
    by (simp add: typed model_get_set_same obs_not_proto)
  have p5: "model_get (fire u [2] (js ''input'') t m) (item_id item) = model_get m (item_id item)" for t m
    by (simp add: typed model_get_set_other[OF neq_append_obs])
  show ?thesis
    using r p1 p2 p3 p4 p5 any by (intro exI[of _ u]) simp
qed

text \<open>
  A yes/no field with an observation whose id is \<open>__proto__\<close>: the choice is not stored,
  while the observation is.
\<close>

lemma proto_choice_is_lost:
  "element_id (the_page (start (Body [proto_dor]) True)) 0 0 [2] = Some (js ''__proto___obs'')
   \<and> model_get (the_model (run [Radio_choice 0 0 [1, 1, 0]] (start (Body [proto_dor]) True)))
        (js ''__proto__'') = None
   \<and> the_model (run [Radio_choice 0 0 [1, 1, 0], Field_event 0 0 [2] (js ''input'') febre]
                   (start (Body [proto_dor]) True))
       = [(js ''__proto___obs'', febre)]"
  by (simp add: eval_defs proto_dor_def febre_def element_id_def unit_at_def start_def run_def
        fire_def select_radio_def model_def model_get_def model_set_def)

text \<open>
  C3. The claim fails on the code for a yes/no descriptor with an observation whose id
  is \<open>1\<close>: the text \<open>#1_obs\<close> is not a selector, the renderer ends with the exception
  of \<open>querySelector\<close> and appends no unit, the assembly ends there with the implicit
  section empty and the text field after it unrendered, and no choice and no typing
  reaches the model.
\<close>

theorem sim_nao_numbered_id:
  "item_type numbered = js ''sim_nao'' \<and> has_observation numbered \<and> item_id numbered = js ''1''
   \<and> renderSimNao numbered = Inl InvalidSelector
   \<and> fst (renderFormulario (Body schema_numbered) (load_page True)) = Some InvalidSelector
   \<and> sections_view (snd (renderFormulario (Body schema_numbered) (load_page True)))
       = [(Geral, [])]
   \<and> the_model (run [Radio_choice 0 0 [1, 1, 0], Field_event 0 0 [2] (js ''input'') febre]
                   (start (Body schema_numbered) True)) = model"
  by (simp add: eval_defs numbered_def schema_numbered_def sections_view_def
        section_label_def unit_at_def start_def run_def model_def)

section \<open>Document generation without its libraries\<close>

text \<open>
  C7. When PizZip or docxtemplater is not defined, \<open>gerarDoc\<close> does nothing but show
  the alert that names the missing libraries: nothing is fetched and the model is
  returned as it was.
\<close>

theorem gerarDoc_missing_dependency:
  assumes "\<not> PizZip_defined env \<or> \<not> docxtemplater_defined env"
  shows "fst (gerarDoc env m)
           = [Alert (js ''Bibliotecas PizZip/docxtemplater n'' @ [0xE3] @ js ''o carregadas!'')]
         \<and> (\<forall>url. Fetch url \<notin> set (fst (gerarDoc env m)))
         \<and> snd (gerarDoc env m) = m"
  using assms by (auto simp add: gerarDoc_def)

theorem gerarDoc_missing_dependency_witness:
  "\<not> PizZip_defined no_libraries
   \<and> fst (gerarDoc no_libraries model)
       = [Alert (js ''Bibliotecas PizZip/docxtemplater n'' @ [0xE3] @ js ''o carregadas!'')]
   \<and> (\<forall>url. Fetch url \<notin> set (fst (gerarDoc no_libraries model)))
   \<and> snd (gerarDoc no_libraries model) = model"
proof -
  have h: "\<not> PizZip_defined no_libraries \<or> \<not> docxtemplater_defined no_libraries"
    by (simp add: no_libraries_def)
  show ?thesis
    using h gerarDoc_missing_dependency [OF h, of model] by (simp add: no_libraries_def)
qed

section \<open>The assembly refines the specification's machine\<close>

lemma next_sections_nonempty: "next_sections d secs \<noteq> []"
  by (simp add: next_sections_def)




lemma sec_units_plain: "sec_units (plain_section t) = []"
  by (simp add: plain_section_def)







lemma renderFormulario_Body: "renderFormulario (Body ds) pg = forEach ds None pg"
  by (simp add: renderFormulario_def carregarPerguntas_def)




lemma filter_group_takeWhile:
  "filter (\<lambda>d. item_type d = js ''group'') (takeWhile (\<lambda>d. item_type d \<noteq> js ''group'') ds) = []"
  by (induction ds) simp_all






section \<open>Order of sections and fields\<close>




section \<open>The implicit first section\<close>




section \<open>Unrecognized types\<close>

lemma renderItem_unknown:
  assumes "item_type item \<notin> {js ''text'', js ''number'', js ''date'', js ''textarea'',
                               js ''sim_nao'', js ''radio'', js ''group''}"
  shows "renderItem item s pg
           = (None, pg\<lparr>console := console pg
                        @ [Console_warn (js ''Tipo desconhecido:'') (item_type item)]\<rparr>)"
  using assms by (simp add: renderItem_def)

lemma all_units_console: "all_units (pg\<lparr>console := c\<rparr>) = all_units pg"
  by (simp add: all_units_def sections_view_def)

lemma all_units_new_section:
  "root pg = Some secs \<Longrightarrow> all_units (pg\<lparr>root := Some (secs @ [plain_section t])\<rparr>) = all_units pg"
  by (simp add: all_units_def sections_view_def sec_units_plain)

text \<open>
  C6. A descriptor whose type is none of text, number, date, textarea, sim_nao, radio
  and group is dispatched to the default branch: no unit is appended, one warning is
  logged, nothing is thrown, and the loop goes on with the descriptors after it.
  (The page has its form container, which the callback needs to open the implicit
  section when no section is open yet.)
\<close>

theorem unknown_type_is_skipped:
  assumes "item_type item \<notin> {js ''text'', js ''number'', js ''date'', js ''textarea'',
                               js ''sim_nao'', js ''radio'', js ''group''}"
    and "root pg = Some secs"
  shows "renderItem item s pg
           = (None, pg\<lparr>console := console pg
                        @ [Console_warn (js ''Tipo desconhecido:'') (item_type item)]\<rparr>)
       \<and> (\<exists>secAtual' pg'.
             each_item item secAtual pg = (None, secAtual', pg')
             \<and> all_units pg' = all_units pg
             \<and> console pg' = console pg
                   @ [Console_warn (js ''Tipo desconhecido:'') (item_type item)]
             \<and> forEach (item # rest) secAtual pg = forEach rest secAtual' pg')"
proof -
  have ng: "item_type item \<noteq> js ''group''" using assms(1) by simp
  show ?thesis
  proof (cases secAtual)
    case None
    then show ?thesis
      using ng assms(2) renderItem_unknown[OF assms(1)]
        createSection_plain[OF assms(2) plain_text_Geral]
      by (simp add: each_item_def all_units_console all_units_new_section)
  next
    case (Some s0)
    then show ?thesis
      using ng renderItem_unknown[OF assms(1)]
      by (simp add: each_item_def all_units_console)
  qed
qed

theorem unknown_type_is_skipped_witness:
  "item_type (field ''foo'' ''q'') \<notin> {js ''text'', js ''number'', js ''date'', js ''textarea'',
                               js ''sim_nao'', js ''radio'', js ''group''}
   \<and> root (load_page True) = Some []
   \<and> (\<exists>secAtual' pg'.
         each_item (field ''foo'' ''q'') None (load_page True) = (None, secAtual', pg')
         \<and> all_units pg' = all_units (load_page True)
         \<and> console pg' = [Console_warn (js ''Tipo desconhecido:'') (js ''foo'')]
         \<and> forEach [field ''foo'' ''q'', field ''text'' ''z''] None (load_page True)
             = forEach [field ''text'' ''z''] secAtual' pg')
   \<and> length (all_units (snd (renderFormulario (Body [field ''foo'' ''q'', field ''text'' ''z''])
                                 (load_page True)))) = 1"
proof -
  have h1: "item_type (field ''foo'' ''q'') \<notin> {js ''text'', js ''number'', js ''date'', js ''textarea'',
                               js ''sim_nao'', js ''radio'', js ''group''}"
    by (simp add: field_def js_def)
  have h2: "root (load_page True) = Some []" by (simp add: load_page_def)
  have c: "console (load_page True) = []" "item_type (field ''foo'' ''q'') = js ''foo''"
    by (simp_all add: load_page_def field_def)
  have n: "length (all_units (snd (renderFormulario (Body [field ''foo'' ''q'', field ''text'' ''z''])
                                 (load_page True)))) = 1"
    by (simp add: eval_defs all_units_def sections_view_def)
  show ?thesis
    using h1 h2 n unknown_type_is_skipped [OF h1 h2, of 0 None "[field ''text'' ''z'']"]
    unfolding c by simp
qed

section \<open>A radio descriptor without options\<close>

lemma renderRadio_no_options: "options item = None \<Longrightarrow> renderRadio item = Inl TypeError"
  by (simp add: renderRadio_def campo_wrapper and_then_def)

lemma each_item_radio_no_options:
  assumes "item_type item = js ''radio''" and "options item = None"
  shows "\<exists>secAtual' pg'. each_item item secAtual pg = (Some TypeError, secAtual', pg')
           \<and> all_units pg' = all_units pg \<and> console pg' = console pg"
proof -
  have ng: "item_type item \<noteq> js ''group''" using assms(1) by (simp add: js_def)
  have r: "renderItem item s pg0 = (Some TypeError, pg0)" for s pg0
    using assms by (simp add: renderItem_def append_rendered_def renderRadio_no_options js_def)
  show ?thesis
  proof (cases secAtual)
    case None
    show ?thesis
    proof (cases "root pg")
      case None
      then show ?thesis using \<open>secAtual = None\<close> ng by (simp add: each_item_def createSection_def)
    next
      case (Some secs)
      then show ?thesis
        using \<open>secAtual = None\<close> ng r createSection_plain[OF Some plain_text_Geral]
        by (simp add: each_item_def all_units_new_section)
    qed
  next
    case (Some s0)
    then show ?thesis using ng r by (simp add: each_item_def)
  qed
qed

lemma forEach_failing_item:
  assumes "\<And>secAtual pg. fst (each_item item secAtual pg) \<noteq> None"
  shows "forEach (pre @ item # rest) secAtual pg = forEach (pre @ [item]) secAtual pg"
proof (induction pre arbitrary: secAtual pg)
  case Nil
  obtain e s' pg' where e: "each_item item secAtual pg = (e, s', pg')"
    by (cases "each_item item secAtual pg")
  then have "e \<noteq> None" using assms[of secAtual pg] by simp
  then show ?case using e by (cases e) simp_all
next
  case (Cons d pre)
  obtain e s' pg' where e: "each_item d secAtual pg = (e, s', pg')"
    by (cases "each_item d secAtual pg")
  show ?case using e Cons.IH[of s' pg'] by (cases e) simp_all
qed

lemma forEach_failing_item_error:
  assumes "\<And>secAtual pg. fst (each_item item secAtual pg) \<noteq> None"
  shows "fst (forEach (pre @ item # rest) secAtual pg) \<noteq> None"
proof (induction pre arbitrary: secAtual pg)
  case Nil
  obtain e s' pg' where e: "each_item item secAtual pg = (e, s', pg')"
    by (cases "each_item item secAtual pg")
  then have "e \<noteq> None" using assms[of secAtual pg] by simp
  then show ?case using e by (cases e) simp_all
next
  case (Cons d pre)
  obtain e s' pg' where e: "each_item d secAtual pg = (e, s', pg')"
    by (cases "each_item d secAtual pg")
  show ?case using e Cons.IH[of s' pg'] by (cases e) simp_all
qed

text \<open>
  C10. For a radio descriptor without options, \<open>renderRadio\<close> throws a TypeError. In
  the loop the exception ends the assembly at that descriptor, whatever precedes it:
  no unit is added for it, nothing is logged, and the result is the same as if the
  sequence ended there, so no descriptor after it is rendered.
\<close>

theorem radio_without_options_aborts:
  assumes "item_type item = js ''radio''" and "options item = None"
  shows "renderRadio item = Inl TypeError
       \<and> fst (forEach (item # rest) secAtual pg) = Some TypeError
       \<and> all_units (snd (forEach (item # rest) secAtual pg)) = all_units pg
       \<and> console (snd (forEach (item # rest) secAtual pg)) = console pg
       \<and> fst (renderFormulario (Body (pre @ item # rest)) pg) \<noteq> None
       \<and> renderFormulario (Body (pre @ item # rest)) pg
           = renderFormulario (Body (pre @ [item])) pg"
proof -
  obtain s' pg' where e: "each_item item secAtual pg = (Some TypeError, s', pg')"
    and u: "all_units pg' = all_units pg" and c: "console pg' = console pg"
    using each_item_radio_no_options[OF assms, of secAtual pg] by blast
  have f: "fst (each_item item s0 pg0) \<noteq> None" for s0 pg0
    using each_item_radio_no_options[OF assms, of s0 pg0] by auto
  have 1: "forEach (pre @ item # rest) None pg = forEach (pre @ [item]) None pg"
    by (rule forEach_failing_item[OF f])
  have 2: "fst (forEach (pre @ item # rest) None pg) \<noteq> None"
    by (rule forEach_failing_item_error[OF f])
  have 3: "forEach (item # rest) secAtual pg = (Some TypeError, pg')"
    using e by simp
  show ?thesis
    unfolding renderFormulario_Body 3 using u c 1 2
    by (simp add: renderRadio_no_options assms(2))
qed

theorem radio_without_options_aborts_witness:
  "item_type (field ''radio'' ''y'') = js ''radio'' \<and> options (field ''radio'' ''y'') = None
   \<and> renderRadio (field ''radio'' ''y'') = Inl TypeError
   \<and> schema_broken = [group ''A''] @ field ''radio'' ''y'' # [field ''text'' ''x'']
   \<and> fst (renderFormulario (Body schema_broken) (load_page True)) \<noteq> None
   \<and> renderFormulario (Body schema_broken) (load_page True)
       = renderFormulario (Body ([group ''A''] @ [field ''radio'' ''y''])) (load_page True)
   \<and> all_units (snd (renderFormulario (Body schema_broken) (load_page True))) = []"
proof -
  have h1: "item_type (field ''radio'' ''y'') = js ''radio''"
    and h2: "options (field ''radio'' ''y'') = None"
    by (simp_all add: field_def)
  have s: "schema_broken = [group ''A''] @ field ''radio'' ''y'' # [field ''text'' ''x'']"
    by (simp add: schema_broken_def)
  have n: "all_units (snd (renderFormulario (Body schema_broken) (load_page True))) = []"
    by (simp add: schema_broken_def eval_defs all_units_def sections_view_def)
  have t: "renderRadio (field ''radio'' ''y'') = Inl TypeError"
    "fst (renderFormulario (Body schema_broken) (load_page True)) \<noteq> None"
    "renderFormulario (Body schema_broken) (load_page True)
       = renderFormulario (Body ([group ''A''] @ [field ''radio'' ''y''])) (load_page True)"
    using radio_without_options_aborts [OF h1 h2, of "[field ''text'' ''x'']" None "load_page True" "[group ''A'']"]
    unfolding s[symmetric] by blast+
  show ?thesis
    using h1 h2 s n t by blast
qed

section \<open>The keys of the model only grow\<close>

lemma model_keys_apply_writes: "model_keys m \<subseteq> model_keys (apply_writes kvs m)"
proof (induction kvs arbitrary: m)
  case Nil
  then show ?case by (simp add: apply_writes_def)
next
  case (Cons kv kvs)
  obtain k v where kv: "kv = (k, v)" by (cases kv)
  have "model_keys m \<subseteq> model_keys (model_set k v m)" by (rule model_keys_set)
  also have "\<dots> \<subseteq> model_keys (apply_writes kvs (model_set k v m))" by (rule Cons.IH)
  finally show ?case by (simp add: apply_writes_def kv)
qed

lemma fold_listeners_writes:
  "\<exists>kvs. fold (\<lambda>(q, t, h) acc. if q = p \<and> t = ty then run_handler h e acc else acc) ls m
          = apply_writes kvs m"
proof (induction ls arbitrary: m)
  case Nil
  have "m = apply_writes [] m" by (simp add: apply_writes_def)
  then show ?case by auto
next
  case (Cons l ls)
  obtain q t h where l: "l = (q, t, h)" by (cases l)
  obtain k where h: "h = StoreValue k" by (cases h)
  show ?case
  proof (cases "q = p \<and> t = ty")
    case True
    obtain kvs where "fold (\<lambda>(q, t, h) acc. if q = p \<and> t = ty then run_handler h e acc else acc) ls
            (model_set k (t_value e) m) = apply_writes kvs (model_set k (t_value e) m)"
      using Cons.IH by blast
    then have "fold (\<lambda>(q, t, h) acc. if q = p \<and> t = ty then run_handler h e acc else acc) (l # ls) m
        = apply_writes ((k, t_value e) # kvs) m"
      using True l h by (simp add: apply_writes_def)
    then show ?thesis by blast
  next
    case False
    then show ?thesis using Cons.IH[of m] l by auto
  qed
qed

lemma fire_writes: "\<exists>kvs. fire u p ty v m = apply_writes kvs m"
proof (cases "node_at (wrap u) p")
  case None
  have "m = apply_writes [] m" by (simp add: apply_writes_def)
  then show ?thesis using None by (auto simp add: fire_def)
next
  case (Some n)
  then show ?thesis using fold_listeners_writes by (simp add: fire_def)
qed

lemma select_radio_writes: "\<exists>kvs. select_radio u p m = apply_writes kvs m"
proof (cases "node_at (wrap u) p")
  case None
  have "m = apply_writes [] m" by (simp add: apply_writes_def)
  then show ?thesis using None by (auto simp add: select_radio_def)
next
  case (Some n)
  then show ?thesis using fire_writes by (simp add: select_radio_def)
qed

lemma dispatch_writes: "\<exists>kvs. the_model (dispatch e st) = apply_writes kvs (the_model st)"
proof -
  have none: "the_model st = apply_writes [] (the_model st)" by (simp add: apply_writes_def)
  have one: "model_set k v (the_model st) = apply_writes [(k, v)] (the_model st)" for k v
    by (simp add: apply_writes_def)
  show ?thesis
  proof (cases e)
    case (Field_event s i p ty v)
    then show ?thesis using none fire_writes by (cases "unit_at (the_page st) s i") auto
  next
    case (Radio_choice s i p)
    then show ?thesis using none select_radio_writes by (cases "unit_at (the_page st) s i") auto
  next
    case (Title_click s)
    then show ?thesis using none by auto
  next
    case Export_click
    then show ?thesis using none by (auto simp add: export_click_def)
  next
    case (Script_input t)
    then show ?thesis using one by (auto simp add: input_listener_def)
  next
    case (Script_radio t)
    then show ?thesis using one by (auto simp add: radio_listener_def Let_def)
  next
    case (Script_range t sib)
    then show ?thesis using one by (auto simp add: range_listener_def)
  next
    case (Save_click ok)
    then show ?thesis using none by (auto simp add: save_click_def salvarPaciente_def)
  next
    case (GerarDoc_click env)
    then show ?thesis using none by (auto simp add: gerarDoc_def)
  qed
qed

lemma dispatch_keys: "model_keys (the_model st) \<subseteq> model_keys (the_model (dispatch e st))"
  using dispatch_writes[of e st] model_keys_apply_writes by metis

lemma run_keys: "model_keys (the_model st) \<subseteq> model_keys (the_model (run es st))"
proof (induction es arbitrary: st)
  case Nil
  then show ?case by (simp add: run_def)
next
  case (Cons e es)
  have "model_keys (the_model st) \<subseteq> model_keys (the_model (dispatch e st))" by (rule dispatch_keys)
  also have "\<dots> \<subseteq> model_keys (the_model (run es (dispatch e st)))" by (rule Cons.IH)
  finally show ?case by (simp add: run_def)
qed

lemma run_append: "run (es @ es') st = run es' (run es st)"
  by (simp add: run_def)

text \<open>
  C8. The model is empty when the session starts. Every event (an event on a field of
  the rendered form, a listener of script.js, a click on a section title, the JSON
  export, the save button, the document button) leaves the model as it was or applies
  writes \<open>model[k] = v\<close> to it, each of which adds a key or overwrites the value of a
  key; no key is removed, so the set of keys after any sequence of events contains the
  set of keys after any of its prefixes.
\<close>

theorem model_keys_only_grow:
  "the_model (start f has_container) = []
   \<and> (\<exists>kvs. the_model (dispatch e st) = apply_writes kvs (the_model st))
   \<and> model_keys (the_model st) \<subseteq> model_keys (the_model (dispatch e st))
   \<and> model_keys (the_model (run es (start f has_container)))
       \<subseteq> model_keys (the_model (run (es @ es') (start f has_container)))"
  using dispatch_writes[of e st] dispatch_keys[of st e]
    run_keys[of "run es (start f has_container)" es']
  by (simp add: run_append start_def model_def)


theorem model_keys_only_grow_witness:
  "the_model (start (Body [dor]) True) = []
   \<and> model_keys (the_model (run [Radio_choice 0 0 [1, 1, 0]] (start (Body [dor]) True)))
       \<subseteq> model_keys (the_model
            (run ([Radio_choice 0 0 [1, 1, 0]]
                  @ [Field_event 0 0 [2] (js ''input'') febre, Save_click True, Export_click])
               (start (Body [dor]) True)))
   \<and> the_model (run [Radio_choice 0 0 [1, 1, 0]] (start (Body [dor]) True)) = [(js ''dor'', Nao)]
   \<and> the_model
        (run ([Radio_choice 0 0 [1, 1, 0]]
              @ [Field_event 0 0 [2] (js ''input'') febre, Save_click True, Export_click])
           (start (Body [dor]) True))
       = [(js ''dor'', Nao), (js ''dor_obs'', febre)]"
proof -
  have a: "the_model (run [Radio_choice 0 0 [1, 1, 0]] (start (Body [dor]) True)) = [(js ''dor'', Nao)]"
    by (simp add: eval_defs dor_def unit_at_def start_def run_def fire_def select_radio_def
          model_def model_set_def)
  have b: "the_model
        (run ([Radio_choice 0 0 [1, 1, 0]]
              @ [Field_event 0 0 [2] (js ''input'') febre, Save_click True, Export_click])
           (start (Body [dor]) True))
       = [(js ''dor'', Nao), (js ''dor_obs'', febre)]"
    by (simp add: eval_defs dor_def febre_def unit_at_def start_def run_def fire_def
          select_radio_def model_def model_set_def export_click_def save_click_def
          salvarPaciente_def)
  show ?thesis
    using a b
      model_keys_only_grow [of "Body [dor]" True Export_click "start (Body [dor]) True"
         "[Radio_choice 0 0 [1, 1, 0]]"
         "[Field_event 0 0 [2] (js ''input'') febre, Save_click True, Export_click]"]
    by blast
qed

section \<open>The name of the generated document\<close>

lemma digit_table:
  "list_all (\<lambda>k. is_digit (0x30 + of_nat k) \<and> unat (0x30 + of_nat k :: jschar) = 48 + k) [0..<10]"
  by code_simp

lemma digit_char: "k < 10 \<Longrightarrow> is_digit (0x30 + of_nat k) \<and> unat (0x30 + of_nat k :: jschar) = 48 + k"
  using digit_table by (simp add: list_all_iff)

lemma length_digits: "length (digits w x) = w"
  by (induction w x rule: digits.induct) simp_all

lemma digits_are_digits: "list_all is_digit (digits w x)"
  by (induction w x rule: digits.induct) (simp_all add: digit_char)

lemma index_value_append: "index_value (xs @ [c]) = 10 * index_value xs + (unat c - 48)"
  by (simp add: index_value_def)

lemma index_value_digits: "index_value (digits w x) = x mod 10 ^ w"
proof (induction w x rule: digits.induct)
  case (1 x)
  then show ?case by (simp add: index_value_def)
next
  case (2 w x)
  have "index_value (digits (Suc w) x) = 10 * (x div 10 mod 10 ^ w) + x mod 10"
    using 2 by (simp add: index_value_append digit_char)
  also have "\<dots> = x mod 10 ^ Suc w"
    by (simp add: mod_mult2_eq)
  finally show ?case .
qed

lemma split_nonempty: "split sep s \<noteq> []"
  by (induction s) (simp_all split: list.splits)

lemma split_first_piece:
  "sep \<notin> set p \<Longrightarrow> first_piece (split sep (p @ sep # rest)) = p"
proof (induction p)
  case Nil
  then show ?case by (simp add: first_piece_def)
next
  case (Cons c p)
  then have "first_piece (split sep (p @ sep # rest)) = p" by simp
  moreover have "c \<noteq> sep" using Cons.prems by auto
  ultimately show ?case using split_nonempty[of sep "p @ sep # rest"]
    by (cases "split sep (p @ sep # rest)") (simp_all add: first_piece_def)
qed

lemma digit_not_T: "is_digit c \<Longrightarrow> c \<noteq> 0x54"
  by (auto simp add: is_digit_def)

lemma T_notin_digits: "(0x54 :: jschar) \<notin> set (digits w x)"
  using digits_are_digits[of w x] digit_not_T by (auto simp add: list_all_iff)

lemma date_part:
  assumes "0 \<le> year d" and "year d \<le> 9999"
  shows "first_piece (split 0x54 (toISOString d))
           = digits 4 (nat (year d)) @ js ''-'' @ digits 2 (month d) @ js ''-'' @ digits 2 (day d)"
proof -
  let ?p = "digits 4 (nat (year d)) @ js ''-'' @ digits 2 (month d) @ js ''-'' @ digits 2 (day d)"
  have eq: "toISOString d = ?p @ 0x54 # (digits 2 (hours d) @ js '':'' @ digits 2 (minutes d)
     @ js '':'' @ digits 2 (seconds d) @ js ''.'' @ digits 3 (milliseconds d) @ js ''Z'')"
    using assms by (simp add: toISOString_def js_def)
  have notin: "0x54 \<notin> set ?p"
    using T_notin_digits by (simp add: js_def)
  show ?thesis unfolding eq by (rule split_first_piece[OF notin])
qed

lemma digits_numeral:
  "digits (numeral n) x = digits (pred_numeral n) (x div 10) @ [0x30 + of_nat (x mod 10)]"
  by (simp only: numeral_eq_Suc[of n] digits.simps)

text \<open>
  C9. For every model, at an instant whose UTC year has four digits, the name under
  which the document is saved is \<open>Registro_\<close>, the value of \<open>ident_nome\<close> (or
  \<open>Paciente\<close> when that key is absent or its value is empty), an underscore, the UTC
  date as four, two and two decimal digits joined by hyphens, and \<open>.docx\<close>; and that
  is the name \<open>gerarDoc\<close> passes to \<open>saveAs\<close> when the libraries are loaded and the
  template is fetched and filled.
\<close>

theorem docx_name_patient_and_date:
  assumes "0 \<le> year d" and "year d \<le> 9999"
    and "1 \<le> month d" and "month d \<le> 12" and "1 \<le> day d" and "day d \<le> 31"
  shows "docx_name m d
           = js ''Registro_''
             @ (case model_get m (js ''ident_nome'') of
                  None \<Rightarrow> js ''Paciente''
                | Some v \<Rightarrow> if v = [] then js ''Paciente'' else v)
             @ js ''_'' @ digits 4 (nat (year d)) @ js ''-'' @ digits 2 (month d)
             @ js ''-'' @ digits 2 (day d) @ js ''.docx''
       \<and> length (digits 4 (nat (year d))) = 4 \<and> list_all is_digit (digits 4 (nat (year d)))
       \<and> int (index_value (digits 4 (nat (year d)))) = year d
       \<and> length (digits 2 (month d)) = 2 \<and> list_all is_digit (digits 2 (month d))
       \<and> index_value (digits 2 (month d)) = month d
       \<and> length (digits 2 (day d)) = 2 \<and> list_all is_digit (digits 2 (day d))
       \<and> index_value (digits 2 (day d)) = day d
       \<and> (PizZip_defined env \<and> docxtemplater_defined env \<and> saveAs_defined env
            \<and> template_docx env = Some content \<and> generate env content m = Some out
            \<and> now env = d
           \<longrightarrow> fst (gerarDoc env m)
                 = [Fetch (js ''template.docx''), SaveAs out (docx_name m d),
                    Alert (js ''Documento gerado com sucesso!'')])"
proof -
  have n: "docx_name m d
           = js ''Registro_''
             @ (case model_get m (js ''ident_nome'') of
                  None \<Rightarrow> js ''Paciente''
                | Some v \<Rightarrow> if v = [] then js ''Paciente'' else v)
             @ js ''_'' @ digits 4 (nat (year d)) @ js ''-'' @ digits 2 (month d)
             @ js ''-'' @ digits 2 (day d) @ js ''.docx''"
    by (simp add: docx_name_def nome_def date_part[OF assms(1,2)])
  have y: "int (index_value (digits 4 (nat (year d)))) = year d"
    using assms(1,2) by (simp add: index_value_digits)
  have md: "index_value (digits 2 (month d)) = month d" "index_value (digits 2 (day d)) = day d"
    using assms(3-6) by (simp_all add: index_value_digits)
  have g: "PizZip_defined env \<and> docxtemplater_defined env \<and> saveAs_defined env
            \<and> template_docx env = Some content \<and> generate env content m = Some out
            \<and> now env = d
           \<longrightarrow> fst (gerarDoc env m)
                 = [Fetch (js ''template.docx''), SaveAs out (docx_name m d),
                    Alert (js ''Documento gerado com sucesso!'')]"
    by (simp add: gerarDoc_def)
  show ?thesis
    using n y md g length_digits digits_are_digits by blast
qed

theorem docx_name_patient_and_date_witness:
  "0 \<le> year noon \<and> year noon \<le> 9999 \<and> 1 \<le> month noon \<and> month noon \<le> 12
   \<and> 1 \<le> day noon \<and> day noon \<le> 31
   \<and> docx_name maria noon = js ''Registro_Maria_2026-11-03.docx''
   \<and> docx_name model noon = js ''Registro_Paciente_2026-11-03.docx''
   \<and> docx_name [(js ''ident_nome'', [])] noon = js ''Registro_Paciente_2026-11-03.docx''
   \<and> fst (gerarDoc libraries_loaded maria)
       = [Fetch (js ''template.docx''), SaveAs [] (js ''Registro_Maria_2026-11-03.docx''),
          Alert (js ''Documento gerado com sucesso!'')]"
proof -
  have h: "0 \<le> year noon" "year noon \<le> 9999" "1 \<le> month noon" "month noon \<le> 12"
    "1 \<le> day noon" "day noon \<le> 31"
    by (simp_all add: noon_def)
  have d: "digits 4 (nat (year noon)) @ js ''-'' @ digits 2 (month noon) @ js ''-''
             @ digits 2 (day noon) = js ''2026-11-03''"
    by (simp add: noon_def digits_numeral js_def)
  have e: "PizZip_defined libraries_loaded \<and> docxtemplater_defined libraries_loaded
     \<and> saveAs_defined libraries_loaded \<and> template_docx libraries_loaded = Some []
     \<and> generate libraries_loaded [] maria = Some [] \<and> now libraries_loaded = noon"
    by (simp add: libraries_loaded_def)
  have n: "docx_name m noon
           = js ''Registro_''
             @ (case model_get m (js ''ident_nome'') of
                  None \<Rightarrow> js ''Paciente''
                | Some v \<Rightarrow> if v = [] then js ''Paciente'' else v)
             @ js ''_'' @ js ''2026-11-03'' @ js ''.docx''" for m
    using docx_name_patient_and_date [OF h, of m libraries_loaded "[]" "[]"]
    unfolding d[symmetric] by simp
  have 1: "docx_name maria noon = js ''Registro_Maria_2026-11-03.docx''"
    unfolding n by (simp add: maria_def model_get_def js_def)
  have 2: "docx_name model noon = js ''Registro_Paciente_2026-11-03.docx''"
    unfolding n by (simp add: model_def model_get_def js_def)
  have 3: "docx_name [(js ''ident_nome'', [])] noon = js ''Registro_Paciente_2026-11-03.docx''"
    unfolding n by (simp add: model_get_def js_def)
  have 4: "fst (gerarDoc libraries_loaded maria)
       = [Fetch (js ''template.docx''), SaveAs [] (docx_name maria noon),
          Alert (js ''Documento gerado com sucesso!'')]"
    using docx_name_patient_and_date [OF h, of maria libraries_loaded "[]" "[]"] e
    by blast
  show ?thesis using h 1 2 3 4 by simp
qed

section \<open>The exported JSON text parses back to the model\<close>

lemma hex_table: "list_all (\<lambda>n. hexvalue (hexdigit n) = Some n) [0..<16]"
  by code_simp

lemma hexvalue_hexdigit: "n < 16 \<Longrightarrow> hexvalue (hexdigit n) = Some n"
  using hex_table by (simp add: list_all_iff)

lemma nibbles:
  fixes n :: nat
  shows "((n div 4096 mod 16 * 16 + n div 256 mod 16) * 16 + n div 16 mod 16) * 16 + n mod 16
           = n mod 65536"
proof -
  have a: "n div 16 mod 16 * 16 + n mod 16 = n mod 256"
    using mod_mult2_eq[of n 16 16] by simp
  have b: "n div 256 mod 16 * 256 + n mod 256 = n mod 4096"
    using mod_mult2_eq[of n 256 16] by simp
  have c: "n div 4096 mod 16 * 4096 + n mod 4096 = n mod 65536"
    using mod_mult2_eq[of n 4096 16] by simp
  show ?thesis using a b c by (simp add: algebra_simps)
qed

lemma hex4_UnicodeEscape:
  "hex4 (hexdigit (unat c div 4096)) (hexdigit (unat c div 256 mod 16))
        (hexdigit (unat c div 16 mod 16)) (hexdigit (unat c mod 16)) = Some (c :: jschar)"
proof -
  have lt: "unat c < 65536" using unsigned_less[of c, where ?'a = nat] by simp
  then have d: "unat c div 4096 < 16" by simp
  have m: "unat c div 4096 mod 16 = unat c div 4096" using d by simp
  have "((unat c div 4096 * 16 + unat c div 256 mod 16) * 16 + unat c div 16 mod 16) * 16
          + unat c mod 16 = unat c"
    using nibbles[of "unat c"] lt m by simp
  then show ?thesis
    using d by (simp add: hex4_def hexvalue_hexdigit)
qed

lemma parse_chars_escape: "parse_chars (escape_unit c @ t) = cons_result c (parse_chars t)"
proof -
  consider "c = 0x08" | "c = 0x09" | "c = 0x0A" | "c = 0x0C" | "c = 0x0D" | "c = 0x22" | "c = 0x5C"
    | (u) "c \<notin> {0x08, 0x09, 0x0A, 0x0C, 0x0D, 0x22, 0x5C}" "c < 0x20 \<or> is_lead c \<or> is_trail c"
    | (v) "c \<notin> {0x08, 0x09, 0x0A, 0x0C, 0x0D, 0x22, 0x5C}" "\<not> (c < 0x20 \<or> is_lead c \<or> is_trail c)"
    by blast
  then show ?thesis
  proof cases
    case u
    then have "escape_unit c = UnicodeEscape c" by (simp add: escape_unit_def)
    then show ?thesis by (simp add: UnicodeEscape_def hex4_UnicodeEscape)
  next
    case v
    then have "escape_unit c = [c]" by (simp add: escape_unit_def)
    then show ?thesis using v by simp
  qed (simp_all add: escape_unit_def simple_escape_def)
qed

lemma surrogate_plain:
  "is_lead c \<or> is_trail c \<Longrightarrow> c \<noteq> 0x22 \<and> c \<noteq> 0x5C \<and> \<not> c < 0x20"
  by (auto simp add: is_lead_def is_trail_def word_le_nat_alt word_less_nat_alt)

lemma parse_chars_plain:
  "c \<noteq> 0x22 \<Longrightarrow> c \<noteq> 0x5C \<Longrightarrow> \<not> c < 0x20 \<Longrightarrow>
   parse_chars (c # t) = cons_result c (parse_chars t)"
  by simp

lemma parse_chars_quote_units:
  "parse_chars (quote_units s @ 0x22 # rest) = Some (s, rest)"
proof (induction s rule: quote_units.induct)
  case 1
  then show ?case by simp
next
  case (2 c)
  have "parse_chars (escape_unit c @ 0x22 # rest) = cons_result c (parse_chars (0x22 # rest))"
    by (rule parse_chars_escape)
  then show ?case by (simp add: cons_result_def)
next
  case (3 c d cs)
  show ?case
  proof (cases "is_lead c \<and> is_trail d")
    case True
    have "parse_chars (c # d # quote_units cs @ 0x22 # rest)
            = cons_result c (cons_result d (parse_chars (quote_units cs @ 0x22 # rest)))"
    proof -
      have pc: "c \<noteq> 0x22 \<and> c \<noteq> 0x5C \<and> \<not> c < 0x20" using True surrogate_plain[of c] by blast
      have pd: "d \<noteq> 0x22 \<and> d \<noteq> 0x5C \<and> \<not> d < 0x20" using True surrogate_plain[of d] by blast
      have "parse_chars (c # d # quote_units cs @ 0x22 # rest)
          = cons_result c (parse_chars (d # quote_units cs @ 0x22 # rest))"
        using pc by (intro parse_chars_plain) simp_all
      also have "parse_chars (d # quote_units cs @ 0x22 # rest)
          = cons_result d (parse_chars (quote_units cs @ 0x22 # rest))"
        using pd by (intro parse_chars_plain) simp_all
      finally show ?thesis .
    qed
    then show ?thesis using True 3(1) by (simp add: cons_result_def del: parse_chars.simps)
  next
    case False
    have "parse_chars (escape_unit c @ quote_units (d # cs) @ 0x22 # rest)
            = cons_result c (parse_chars (quote_units (d # cs) @ 0x22 # rest))"
      by (rule parse_chars_escape)
    then show ?thesis using False 3(2) by (auto simp add: cons_result_def simp del: parse_chars.simps)
  qed
qed

lemma parse_string_Quote:
  "parse_string (QuoteJSONString s @ rest) = Some (s, rest)"
  using parse_chars_quote_units[of s rest] by (simp add: parse_string_def QuoteJSONString_def)


lemma update_fresh: "k \<notin> fst ` set al \<Longrightarrow> AList.update k v al = al @ [(k, v)]"
  by (induction al) auto

lemma fold_update_distinct:
  "distinct (map fst (acc @ kvs)) \<Longrightarrow> fold (\<lambda>(k, v). AList.update k v) kvs acc = acc @ kvs"
proof (induction kvs arbitrary: acc)
  case Nil
  then show ?case by simp
next
  case (Cons kv kvs)
  obtain k v where kv: "kv = (k, v)" by (cases kv)
  have "k \<notin> fst ` set acc" using Cons.prems kv by auto
  then have u: "AList.update k v acc = acc @ [(k, v)]" by (rule update_fresh)
  have "distinct (map fst ((acc @ [(k, v)]) @ kvs))" using Cons.prems kv by simp
  from Cons.IH[OF this] show ?case using u kv by simp
qed

lemma skip_ws_quote: "skip_ws (QuoteJSONString s @ rest) = QuoteJSONString s @ rest"
  by (simp add: skip_ws_def QuoteJSONString_def is_ws_def)

lemma skip_ws_prefix: "list_all is_ws w \<Longrightarrow> skip_ws (w @ QuoteJSONString s @ rest) = QuoteJSONString s @ rest"
  by (induction w) (simp_all add: skip_ws_quote, simp add: skip_ws_def)

lemma skip_ws_stop: "list_all is_ws w \<Longrightarrow> \<not> is_ws x \<Longrightarrow> skip_ws (w @ x # rest) = x # rest"
  by (induction w) (simp_all add: skip_ws_def)

lemma parse_member:
  assumes "list_all is_ws w" and "list_all is_ws w2" and "\<not> is_ws x"
  shows "parse_members (Suc fuel) (w @ json_member (k, v) @ w2 @ x # rest) obj
       = (if x = 0x7D then Some (AList.update k v obj, rest)
          else if x = 0x2C then parse_members fuel rest (AList.update k v obj)
          else None)"
proof -
  let ?r = "w2 @ x # rest"
  have 1: "parse_string (skip_ws (w @ json_member (k, v) @ ?r))
      = Some (k, js '': '' @ QuoteJSONString v @ ?r)"
    using skip_ws_prefix[OF assms(1), of k] by (simp add: json_member_def parse_string_Quote)
  have 2: "expect 0x3A (js '': '' @ QuoteJSONString v @ ?r) = Some (js '' '' @ QuoteJSONString v @ ?r)"
    by (simp add: expect_def skip_ws_def is_ws_def js_def)
  have 3: "parse_string (skip_ws (js '' '' @ QuoteJSONString v @ ?r)) = Some (v, ?r)"
    using skip_ws_prefix[of "js '' ''" v ?r] by (simp add: parse_string_Quote js_def is_ws_def)
  have 4: "skip_ws ?r = x # rest" by (rule skip_ws_stop[OF assms(2,3)])
  show ?thesis by (simp add: 1 2 3 4)
qed


lemma parse_members_join:
  assumes "list_all is_ws w" and "length kvs < fuel"
  shows "parse_members fuel (w @ join member_separator (map json_member (kv # kvs)) @ [0x0A, 0x7D] @ tail) obj
           = Some (fold (\<lambda>(k, v). AList.update k v) (kv # kvs) obj, tail)"
  using assms
proof (induction kvs arbitrary: kv w obj fuel)
  case Nil
  obtain k v where kv: "kv = (k, v)" by (cases kv)
  obtain f where f: "fuel = Suc f" using Nil.prems(2) by (cases fuel) auto
  have "parse_members (Suc f) (w @ json_member (k, v) @ [0x0A] @ 0x7D # tail) obj
          = Some (AList.update k v obj, tail)"
    by (subst parse_member[OF Nil.prems(1)]) (simp_all add: is_ws_def)
  then show ?case by (simp add: kv f)
next
  case (Cons kv' kvs)
  obtain k v where kv: "kv = (k, v)" by (cases kv)
  obtain f where f: "fuel = Suc f" using Cons.prems(2) by (cases fuel) auto
  let ?rest = "[0x0A, 0x20, 0x20] @ join member_separator (map json_member (kv' # kvs)) @ [0x0A, 0x7D] @ tail"
  have w': "list_all is_ws [0x0A, 0x20, 0x20 :: jschar]" by (simp add: is_ws_def)
  have "parse_members (Suc f) (w @ json_member (k, v) @ [] @ 0x2C # ?rest) obj
          = parse_members f ?rest (AList.update k v obj)"
    by (subst parse_member[OF Cons.prems(1)]) (simp_all add: is_ws_def)
  also have "\<dots> = Some (fold (\<lambda>(k, v). AList.update k v) (kv' # kvs) (AList.update k v obj), tail)"
    by (rule Cons.IH[OF w']) (use Cons.prems(2) f in simp)
  finally show ?case by (simp add: kv f member_separator_def js_def)
qed

lemma length_join: "length xs \<le> length (join s (map json_member xs))"
proof (induction xs rule: induct_list012)
  case 1
  then show ?case by simp
next
  case (2 x)
  then show ?case by (simp add: json_member_def QuoteJSONString_def)
next
  case (3 x y zs)
  have "1 \<le> length (json_member x)" by (simp add: json_member_def QuoteJSONString_def)
  then show ?case using 3(2) by simp
qed

lemma JSON_parse_entries:
  assumes "distinct (map fst (own_entries m))"
  shows "JSON_parse (JSON_stringify m) = Some (own_entries m)"
proof (cases "own_entries m")
  case Nil
  then show ?thesis
    by (simp add: JSON_stringify_def JSON_parse_def expect_def skip_ws_def is_ws_def js_def)
next
  case (Cons kv kvs)
  let ?r = "[0x0A, 0x20, 0x20] @ join member_separator (map json_member (kv # kvs)) @ [0x0A, 0x7D] @ []"
  have t: "JSON_stringify m = 0x7B # ?r"
    using Cons by (simp add: JSON_stringify_def member_separator_def js_def)
  have e: "expect 0x7B (0x7B # ?r) = Some ?r"
    by (simp add: expect_def skip_ws_def is_ws_def)
  have w: "list_all is_ws [0x0A, 0x20, 0x20 :: jschar]" by (simp add: is_ws_def)
  obtain k v where kv: "kv = (k, v)" by (cases kv)
  have j: "join member_separator (map json_member (kv # kvs)) = QuoteJSONString k @ drop (length (QuoteJSONString k)) (join member_separator (map json_member (kv # kvs)))"
    by (cases kvs) (simp_all add: kv json_member_def)
  have "skip_ws ?r = QuoteJSONString k
      @ drop (length (QuoteJSONString k)) (join member_separator (map json_member (kv # kvs))) @ [0x0A, 0x7D] @ []"
    by (subst j, subst append_assoc, rule skip_ws_prefix[OF w])
  then obtain r' where s: "skip_ws ?r = 0x22 # r'" by (simp add: QuoteJSONString_def)
  have fuel: "length kvs < length ?r" using length_join[of "kv # kvs" member_separator] by simp
  have p: "parse_members (length ?r) ?r [] = Some (fold (\<lambda>(k, v). AList.update k v) (kv # kvs) [], [])"
    by (rule parse_members_join[OF w fuel])
  have d: "fold (\<lambda>(k, v). AList.update k v) (kv # kvs) [] = kv # kvs"
    using fold_update_distinct[of "[]" "kv # kvs"] assms Cons by simp
  show ?thesis
    unfolding t JSON_parse_def e using s p d Cons by (simp add: skip_ws_def del: parse_members.simps fold_simps)
qed

lemma mset_own_entries: "mset (own_entries m) = mset m"
  by (simp add: own_entries_def split_beta)

lemma own_entries_distinct: "distinct (map fst m) \<Longrightarrow> distinct (map fst (own_entries m))"
proof -
  assume d: "distinct (map fst m)"
  have "mset (map fst (own_entries m)) = mset (map fst m)"
    using mset_own_entries[of m] by simp
  then show ?thesis using d mset_eq_imp_distinct_iff by blast
qed

lemma own_entries_map_of: "distinct (map fst m) \<Longrightarrow> map_of (own_entries m) = map_of m"
proof -
  assume d: "distinct (map fst m)"
  have "set (own_entries m) = set m" using mset_own_entries[of m] by (metis set_mset_mset)
  then show ?thesis using d own_entries_distinct[OF d] by (simp add: map_of_inject_set)
qed


lemma distinct_model_set: "distinct (map fst m) \<Longrightarrow> distinct (map fst (model_set k v m))"
  by (simp add: model_set_def distinct_update)

lemma distinct_apply_writes: "distinct (map fst m) \<Longrightarrow> distinct (map fst (apply_writes kvs m))"
proof (induction kvs arbitrary: m)
  case Nil
  then show ?case by (simp add: apply_writes_def)
next
  case (Cons kv kvs)
  obtain k v where kv: "kv = (k, v)" by (cases kv)
  have "distinct (map fst (apply_writes kvs (model_set k v m)))"
    by (rule Cons.IH) (rule distinct_model_set[OF Cons.prems])
  then show ?case by (simp add: apply_writes_def kv)
qed

lemma distinct_run:
  "distinct (map fst (the_model st)) \<Longrightarrow> distinct (map fst (the_model (run es st)))"
proof (induction es arbitrary: st)
  case Nil
  then show ?case by (simp add: run_def)
next
  case (Cons e es)
  obtain kvs where "the_model (dispatch e st) = apply_writes kvs (the_model st)"
    using dispatch_writes by blast
  then have "distinct (map fst (the_model (dispatch e st)))"
    using distinct_apply_writes[OF Cons.prems] by simp
  from Cons.IH[OF this] show ?case by (simp add: run_def)
qed

text \<open>
  C5. The export hands \<open>JSON.stringify(model, null, 2)\<close> to the download. For every
  model (an object: no key occurs twice), parsing that text succeeds and gives the
  entries of the model in the enumeration order of its keys, a mapping equal to the
  model: every key has the value it has in the model. Every model a session can reach
  is such an object.
\<close>

theorem json_round_trip:
  assumes "distinct (map fst m)"
  shows "fst (export_click m) = [Download (js ''respostas.json'') (JSON_stringify m)]
       \<and> JSON_parse (JSON_stringify m) = Some (own_entries m)
       \<and> model_get (own_entries m) = model_get m
       \<and> distinct (map fst (the_model (run es (start f has_container))))"
proof -
  have "distinct (map fst (the_model (start f has_container)))"
    by (simp add: start_def model_def)
  then have "distinct (map fst (the_model (run es (start f has_container))))"
    by (rule distinct_run)
  then show ?thesis
    using JSON_parse_entries[OF own_entries_distinct[OF assms]] own_entries_map_of[OF assms]
    by (simp add: model_get_def fun_eq_iff export_click_def)
qed

theorem json_round_trip_witness:
  "distinct (map fst maria)
   \<and> fst (export_click maria) = [Download (js ''respostas.json'') (JSON_stringify maria)]
   \<and> JSON_parse (JSON_stringify maria) = Some maria
   \<and> model_get maria (js ''ident_nome'') = Some (js ''Maria'')
   \<and> model_get maria (js ''dor'') = Some Sim"
proof -
  have h: "distinct (map fst maria)" by (simp add: maria_def js_def)
  have o: "own_entries maria = maria" by code_simp
  have g: "model_get maria (js ''ident_nome'') = Some (js ''Maria'')"
    "model_get maria (js ''dor'') = Some Sim"
    by (simp_all add: maria_def model_get_def js_def)
  show ?thesis
    using h g json_round_trip [OF h, of "[]" "Body []" True] unfolding o by simp
qed

end
